theory Spec2Isabelle
  imports Main
begin

section \<open>Data model of the attach/detach controller\<close>

text \<open>
  The controller (package \<open>controller\<close>, type \<open>ReconcileAttachDetach\<close>) works on
  \<open>AzVolumeAttachment\<close> custom resources. The Go string types for the attachment state and
  the role are enumerations of named constants; they are datatypes here. The gRPC codes are
  those of \<open>google.golang.org/grpc/codes\<close>.
\<close>

datatype AzVolumeAttachmentAttachmentState =
    AttachmentPending | Attaching | Attached | AttachmentFailed
  | Detaching | Detached | DetachmentFailed

datatype Role = PrimaryRole | ReplicaRole

datatype Code =
    OK | Canceled | Unknown | InvalidArgument | DeadlineExceeded | NotFound | AlreadyExists
  | PermissionDenied | ResourceExhausted | FailedPrecondition | Aborted | OutOfRange
  | Unimplemented | Internal | Unavailable | DataLoss | Unauthenticated

text \<open>
  Go errors as values. \<open>StatusError c msg\<close> is a gRPC status error (\<open>status.Error\<close>),
  \<open>DanglingAttachError msg node path\<close> is \<open>*volerr.DanglingAttachError\<close> with its
  \<open>CurrentNode\<close> and \<open>DevicePath\<close>, \<open>ApiNotFound\<close> is an API error for which
  \<open>errors.IsNotFound\<close> holds, and \<open>OtherError\<close> is any other error; the string is what
  \<open>Error()\<close> returns.
\<close>

datatype go_error =
    StatusError Code string
  | DanglingAttachError string string string
  | ApiNotFound string
  | OtherError string

fun IsNotFound :: "go_error option \<Rightarrow> bool" where
  "IsNotFound (Some (ApiNotFound _)) = True"
| "IsNotFound _ = False"

fun Error_text :: "go_error \<Rightarrow> string" where
  "Error_text (StatusError c msg) = msg"
| "Error_text (DanglingAttachError msg node path) = msg"
| "Error_text (ApiNotFound msg) = msg"
| "Error_text (OtherError msg) = msg"

text \<open>\<open>status.Code\<close>: the code of a status error, \<open>OK\<close> for nil, \<open>Unknown\<close> otherwise.\<close>

fun status_Code :: "go_error option \<Rightarrow> Code" where
  "status_Code None = OK"
| "status_Code (Some (StatusError c msg)) = c"
| "status_Code (Some _) = Unknown"

record AzVolumeAttachmentStatusDetail =
  Role :: Role
  PublishContext :: "string \<rightharpoonup> string"

record AzError =
  ErrorCode :: string
  ErrorMessage :: string
  CurrentNode :: string
  DevicePath :: string

text \<open>
  One record for the whole resource: the fields of \<open>ObjectMeta\<close> that the code reads
  (name to deletion timestamp), then those of \<open>Spec\<close> (\<open>UnderlyingVolume\<close> to
  \<open>VolumeContext\<close>), then those of \<open>Status\<close>. A nil map or slice and an empty one are the
  same value: the code reads both alike and allocates before it writes. A nil pointer to the
  resource is \<open>None\<close>.
\<close>

record AzVolumeAttachment =
  Name :: string
  Namespace :: string
  Labels :: "string \<rightharpoonup> string"
  Annotations :: "string \<rightharpoonup> string"
  Finalizers :: "string list"
  CreationTimestamp :: int
  DeletionTimestamp :: "int option"
  UnderlyingVolume :: string
  VolumeID :: string
  NodeName :: string
  RequestedRole :: Role
  VolumeContext :: "string \<rightharpoonup> string"
  Detail :: "AzVolumeAttachmentStatusDetail option"
  State :: AzVolumeAttachmentAttachmentState
  Error :: "AzError option"

section \<open>Names declared outside the controller file\<close>

text \<open>
  Modelled from the spec: the driver name, the finalizer, the label keys, the annotation
  keys and the dangling-attach error code are constants of the packages \<open>azureutils\<close> and
  \<open>util\<close>, and the string values of the two roles are given with the type \<open>Role\<close>; none
  of these declarations is among the sources. Each constant stands here for a name of its
  own. The theorems about all inputs hold for any values, their proofs do not unfold these
  definitions; only the evaluation of the examples does.
\<close>

definition DriverName :: string where
  "DriverName = ''disk.csi.azure.com''"

definition AzVolumeAttachmentFinalizer :: string where
  "AzVolumeAttachmentFinalizer = ''azvolumeattachment-finalizer''"

definition NodeNameLabel :: string where
  "NodeNameLabel = ''node-name''"

definition VolumeNameLabel :: string where
  "VolumeNameLabel = ''volume-name''"

definition RoleLabel :: string where
  "RoleLabel = ''role''"

definition VolumeAttachmentExistsAnnotation :: string where
  "VolumeAttachmentExistsAnnotation = ''volume-attachment-exists''"

definition VolumeDetachRequestAnnotation :: string where
  "VolumeDetachRequestAnnotation = ''volume-detach-request''"

definition DanglingAttachErrorCode :: string where
  "DanglingAttachErrorCode = ''DANGLING_ATTACH''"

fun string_of_Role :: "Role \<Rightarrow> string" where
  "string_of_Role PrimaryRole = ''Primary''"
| "string_of_Role ReplicaRole = ''Replica''"

text \<open>
  Modelled from the spec: \<open>util.GetStringValueForErrorCode\<close> is not among the sources; it
  gives the string that stands for a gRPC code in \<open>Status.Error.ErrorCode\<close>.
\<close>

fun GetStringValueForErrorCode :: "Code \<Rightarrow> string" where
  "GetStringValueForErrorCode OK = ''OK''"
| "GetStringValueForErrorCode Canceled = ''CANCELLED''"
| "GetStringValueForErrorCode Unknown = ''UNKNOWN''"
| "GetStringValueForErrorCode InvalidArgument = ''INVALID_ARGUMENT''"
| "GetStringValueForErrorCode DeadlineExceeded = ''DEADLINE_EXCEEDED''"
| "GetStringValueForErrorCode NotFound = ''NOT_FOUND''"
| "GetStringValueForErrorCode AlreadyExists = ''ALREADY_EXISTS''"
| "GetStringValueForErrorCode PermissionDenied = ''PERMISSION_DENIED''"
| "GetStringValueForErrorCode ResourceExhausted = ''RESOURCE_EXHAUSTED''"
| "GetStringValueForErrorCode FailedPrecondition = ''FAILED_PRECONDITION''"
| "GetStringValueForErrorCode Aborted = ''ABORTED''"
| "GetStringValueForErrorCode OutOfRange = ''OUT_OF_RANGE''"
| "GetStringValueForErrorCode Unimplemented = ''UNIMPLEMENTED''"
| "GetStringValueForErrorCode Internal = ''INTERNAL''"
| "GetStringValueForErrorCode Unavailable = ''UNAVAILABLE''"
| "GetStringValueForErrorCode DataLoss = ''DATA_LOSS''"
| "GetStringValueForErrorCode Unauthenticated = ''UNAUTHENTICATED''"

text \<open>
  Modelled from the spec: the helpers \<open>finalizerExists\<close>, \<open>labelExists\<close>,
  \<open>isOperationInProcess\<close>, \<open>deletionRequested\<close>, \<open>getOperationRequeueError\<close> and
  \<open>reconcileReturnOnError\<close> of the controller package are not among the sources. A
  finalizer exists when it is in the list, a label when its key is in the map; an operation
  is in flight while the state is \<open>Attaching\<close> or \<open>Detaching\<close>; deletion is requested when
  the deletion timestamp is set; the requeue error is the retry-later signal of a trigger
  that found the lock held; an error of a trigger step becomes a requeue with that error.
  \<open>metav1.HasAnnotation\<close> tells whether the key is in the annotations.
\<close>

definition finalizerExists :: "string list \<Rightarrow> string \<Rightarrow> bool" where
  "finalizerExists finalizers finalizerName = (finalizerName \<in> set finalizers)"

definition labelExists :: "(string \<rightharpoonup> string) \<Rightarrow> string \<Rightarrow> bool" where
  "labelExists labels label = (labels label \<noteq> None)"

definition HasAnnotation :: "AzVolumeAttachment \<Rightarrow> string \<Rightarrow> bool" where
  "HasAnnotation obj ann = (Annotations obj ann \<noteq> None)"

definition isOperationInProcess :: "AzVolumeAttachment \<Rightarrow> bool" where
  "isOperationInProcess azv = (State azv = Attaching \<or> State azv = Detaching)"

definition deletionRequested :: "AzVolumeAttachment \<Rightarrow> bool" where
  "deletionRequested azv = (DeletionTimestamp azv \<noteq> None)"

definition getOperationRequeueError :: "string \<Rightarrow> AzVolumeAttachment \<Rightarrow> go_error" where
  "getOperationRequeueError desired obj =
     StatusError Aborted (''requeueing '' @ desired @ '' operation for '' @ Name obj)"

record Result =
  Requeue :: bool

definition reconcileReturnOnError ::
  "AzVolumeAttachment \<Rightarrow> string \<Rightarrow> go_error \<Rightarrow> Result \<times> go_error option" where
  "reconcileReturnOnError obj operationType err = (\<lparr>Requeue = True\<rparr>, Some err)"

section \<open>The cluster as the controller sees it\<close>

text \<open>
  The low-level objects of \<open>storage/v1\<close> and \<open>core/v1\<close>, with the fields the controller
  reads: a \<open>VolumeAttachment\<close> (name, deletion timestamp, attacher, node, volume source,
  status) and a \<open>PersistentVolume\<close> with its optional CSI source.
\<close>

record VolumeAttachmentStatus =
  va_Attached :: bool
  va_AttachError :: "string option"
  va_DetachError :: "string option"

record VolumeAttachment =
  va_Name :: string
  va_DeletionTimestamp :: "int option"
  va_Attacher :: string
  va_NodeName :: string
  va_PersistentVolumeName :: "string option"
  va_Status :: VolumeAttachmentStatus

record CSIPersistentVolumeSource =
  Driver :: string
  VolumeHandle :: string

record PersistentVolume =
  pv_Name :: string
  pv_CSI :: "CSIPersistentVolumeSource option"

datatype api_call = GetCall string | UpdateCall string | CreateCall string

datatype provisioner_call =
    PublishVolumeCall string string
  | UnpublishVolumeCall string string

text \<open>
  A goroutine that a trigger has launched and that has not run yet; it holds the resource
  the trigger was called with.
\<close>

datatype goroutine = AttachGoroutine AzVolumeAttachment | DetachGoroutine AzVolumeAttachment

text \<open>
  The world of one controller: the store of \<open>AzVolumeAttachment\<close> resources of the
  controller's namespace, by name; the failures that the API server answers to calls on that
  store; the answers of the cluster to reads of the low-level objects; the provisioner (its
  two methods) and the log of the calls made to it; the keys of the \<open>sync.Map\<close>
  \<open>stateLock\<close> (all its values are nil); the goroutines launched and not yet run.
\<close>

record world =
  store :: "string \<rightharpoonup> AzVolumeAttachment"
  apiFault :: "api_call \<Rightarrow> go_error option"
  getVolumeAttachment :: "string \<Rightarrow> go_error + VolumeAttachment"
  listVolumeAttachments :: "go_error + VolumeAttachment list"
  getPersistentVolume :: "string \<Rightarrow> go_error + PersistentVolume"
  PublishVolume :: "string \<Rightarrow> string \<Rightarrow> (string \<rightharpoonup> string) \<Rightarrow> go_error + (string \<rightharpoonup> string)"
  UnpublishVolume :: "string \<Rightarrow> string \<Rightarrow> go_error option"
  provisionerCalls :: "provisioner_call list"
  stateLock :: "string set"
  goroutines :: "goroutine list"

text \<open>
  Modelled from the spec: the store operations (\<open>azureutils.GetAzVolumeAttachment\<close>, the
  generated clientset's \<open>Create\<close>, the client's \<open>Update\<close>) and
  \<open>azureutils.UpdateCRIWithRetry\<close> are not among the sources. Get-by-name answers not-found
  for an absent name; update writes a resource that exists; create writes one that does not;
  each fails with the error the API server answers, if any. The read-modify-write helper
  reads the stored resource, applies the mutation to a copy and writes the copy; an error of
  the read or of the mutation is returned and nothing is written. Its retries on conflict
  are bounded and meet the same answer of the server, so the error of the write is the
  result.
\<close>

definition GetAzVolumeAttachment :: "world \<Rightarrow> string \<Rightarrow> go_error + AzVolumeAttachment" where
  "GetAzVolumeAttachment w azVolumeAttachmentName =
     (case apiFault w (GetCall azVolumeAttachmentName) of
        Some err \<Rightarrow> Inl err
      | None \<Rightarrow>
          (case store w azVolumeAttachmentName of
             None \<Rightarrow> Inl (ApiNotFound azVolumeAttachmentName)
           | Some azv \<Rightarrow> Inr azv))"

definition client_Update :: "world \<Rightarrow> AzVolumeAttachment \<Rightarrow> world \<times> go_error option" where
  "client_Update w obj =
     (case apiFault w (UpdateCall (Name obj)) of
        Some err \<Rightarrow> (w, Some err)
      | None \<Rightarrow>
          (case store w (Name obj) of
             None \<Rightarrow> (w, Some (ApiNotFound (Name obj)))
           | Some old \<Rightarrow> (w\<lparr>store := (store w)(Name obj \<mapsto> obj)\<rparr>, None)))"

definition client_Create :: "world \<Rightarrow> AzVolumeAttachment \<Rightarrow> world \<times> go_error option" where
  "client_Create w obj =
     (case apiFault w (CreateCall (Name obj)) of
        Some err \<Rightarrow> (w, Some err)
      | None \<Rightarrow>
          (case store w (Name obj) of
             Some old \<Rightarrow> (w, Some (StatusError AlreadyExists (Name obj)))
           | None \<Rightarrow> (w\<lparr>store := (store w)(Name obj \<mapsto> obj)\<rparr>, None)))"

definition UpdateCRIWithRetry ::
  "world \<Rightarrow> AzVolumeAttachment \<Rightarrow>
   (AzVolumeAttachment \<Rightarrow> AzVolumeAttachment \<times> go_error option) \<Rightarrow> world \<times> go_error option" where
  "UpdateCRIWithRetry w obj updateFunc =
     (case GetAzVolumeAttachment w (Name obj) of
        Inl err \<Rightarrow> (w, Some err)
      | Inr target \<Rightarrow>
          (case updateFunc target of
             (updated, Some err) \<Rightarrow> (w, Some err)
           | (updated, None) \<Rightarrow> client_Update w updated))"

text \<open>
  \<open>sync.Map\<close> with nil values: \<open>LoadOrStore\<close> tells whether the key was there and stores it
  if not, in one atomic step; \<open>Delete\<close> removes it.
\<close>

definition LoadOrStore :: "string set \<Rightarrow> string \<Rightarrow> string set \<times> bool" where
  "LoadOrStore m key = (if key \<in> m then (m, True) else (insert key m, False))"

definition Delete :: "string set \<Rightarrow> string \<Rightarrow> string set" where
  "Delete m key = m - {key}"

section \<open>The functions that change a resource\<close>

text \<open>
  A closure passed to \<open>UpdateCRIWithRetry\<close> changes the resource it is given in place. The
  functions below return the pointer they were given, so the resource after the closure is
  the one they return; \<open>at_pointer\<close> reads it (a nil pointer leaves the resource as it was).
\<close>

definition at_pointer :: "AzVolumeAttachment \<Rightarrow> AzVolumeAttachment option \<Rightarrow> AzVolumeAttachment" where
  "at_pointer obj p = (case p of None \<Rightarrow> obj | Some azv \<Rightarrow> azv)"

definition initializeMeta :: "AzVolumeAttachment option \<Rightarrow> AzVolumeAttachment option" where
  "initializeMeta azVolumeAttachment =
     (case azVolumeAttachment of
        None \<Rightarrow> None
      | Some azv \<Rightarrow>
          if finalizerExists (Finalizers azv) AzVolumeAttachmentFinalizer \<and>
             labelExists (Labels azv) NodeNameLabel \<and>
             labelExists (Labels azv) VolumeNameLabel \<and>
             labelExists (Labels azv) RoleLabel
          then Some azv
          else
            (let azv1 = (if \<not> finalizerExists (Finalizers azv) AzVolumeAttachmentFinalizer
                         then azv\<lparr>Finalizers := Finalizers azv @ [AzVolumeAttachmentFinalizer]\<rparr>
                         else azv)
             in Some (azv1\<lparr>Labels := (Labels azv1)
                        (NodeNameLabel \<mapsto> NodeName azv1,
                         VolumeNameLabel \<mapsto> UnderlyingVolume azv1,
                         RoleLabel \<mapsto> string_of_Role (RequestedRole azv1))\<rparr>)))"

definition deleteFinalizer :: "AzVolumeAttachment option \<Rightarrow> AzVolumeAttachment option" where
  "deleteFinalizer azVolumeAttachment =
     (case azVolumeAttachment of
        None \<Rightarrow> None
      | Some azv \<Rightarrow>
          Some (azv\<lparr>Finalizers :=
                  filter (\<lambda>finalizer. finalizer \<noteq> AzVolumeAttachmentFinalizer) (Finalizers azv)\<rparr>))"

definition updateRole :: "AzVolumeAttachment option \<Rightarrow> Role \<Rightarrow> AzVolumeAttachment option" where
  "updateRole azVolumeAttachment role =
     (case azVolumeAttachment of
        None \<Rightarrow> None
      | Some azv \<Rightarrow>
          (let azv1 = azv\<lparr>Labels := (Labels azv)(RoleLabel \<mapsto> string_of_Role role)\<rparr>
           in case Detail azv1 of
                None \<Rightarrow> Some azv1
              | Some detail \<Rightarrow> Some (azv1\<lparr>Detail := Some (detail\<lparr>Role := role\<rparr>)\<rparr>)))"

definition updateStatusDetail ::
  "AzVolumeAttachment option \<Rightarrow> (string \<rightharpoonup> string) \<Rightarrow> AzVolumeAttachment option" where
  "updateStatusDetail azVolumeAttachment status =
     (case azVolumeAttachment of
        None \<Rightarrow> None
      | Some azv \<Rightarrow>
          (let detail = (case Detail azv of
                           None \<Rightarrow> \<lparr>Role = PrimaryRole, PublishContext = Map.empty\<rparr>
                         | Some d \<Rightarrow> d)
           in Some (azv\<lparr>Detail :=
                      Some (detail\<lparr>Role := RequestedRole azv, PublishContext := status\<rparr>)\<rparr>)))"

definition updateError :: "AzVolumeAttachment option \<Rightarrow> go_error option \<Rightarrow> AzVolumeAttachment option" where
  "updateError azVolumeAttachment err =
     (case azVolumeAttachment of
        None \<Rightarrow> None
      | Some azv \<Rightarrow>
          (case err of
             None \<Rightarrow> Some azv
           | Some e \<Rightarrow>
               (let azVolumeAttachmentError =
                      \<lparr>ErrorCode = GetStringValueForErrorCode (status_Code err),
                       ErrorMessage = Error_text e,
                       CurrentNode = [],
                       DevicePath = []\<rparr>;
                    azVolumeAttachmentError =
                      (case e of
                         DanglingAttachError msg node path \<Rightarrow>
                           azVolumeAttachmentError
                             \<lparr>ErrorCode := DanglingAttachErrorCode,
                              CurrentNode := node,
                              DevicePath := path\<rparr>
                       | _ \<Rightarrow> azVolumeAttachmentError)
                in Some (azv\<lparr>Error := Some azVolumeAttachmentError\<rparr>))))"

definition update :: "world \<Rightarrow> AzVolumeAttachment option \<Rightarrow> world \<times> go_error option" where
  "update w azVolumeAttachment =
     (case azVolumeAttachment of
        None \<Rightarrow> (w, Some (StatusError FailedPrecondition
                  ''expecting non-nil azVolumeAttachment object to update''))
      | Some azv \<Rightarrow> client_Update w azv)"

definition attachVolume ::
  "world \<Rightarrow> string \<Rightarrow> string \<Rightarrow> (string \<rightharpoonup> string) \<Rightarrow> world \<times> (go_error + (string \<rightharpoonup> string))" where
  "attachVolume w volumeID node volumeContext =
     (w\<lparr>provisionerCalls := provisionerCalls w @ [PublishVolumeCall volumeID node]\<rparr>,
      PublishVolume w volumeID node volumeContext)"

definition detachVolume :: "world \<Rightarrow> string \<Rightarrow> string \<Rightarrow> world \<times> go_error option" where
  "detachVolume w volumeID node =
     (w\<lparr>provisionerCalls := provisionerCalls w @ [UnpublishVolumeCall volumeID node]\<rparr>,
      UnpublishVolume w volumeID node)"



section \<open>State machine\<close>

text \<open>The map \<open>allowedTargetAttachmentStates\<close>; a key that is absent (\<open>Detached\<close>) reads as nil.\<close>

fun allowedTargetAttachmentStates ::
  "AzVolumeAttachmentAttachmentState \<Rightarrow> AzVolumeAttachmentAttachmentState list" where
  "allowedTargetAttachmentStates AttachmentPending = [Attaching, Detaching]"
| "allowedTargetAttachmentStates Attaching = [Attached, AttachmentFailed]"
| "allowedTargetAttachmentStates Detaching = [Detached, DetachmentFailed]"
| "allowedTargetAttachmentStates Attached = [Detaching]"
| "allowedTargetAttachmentStates AttachmentFailed = [Attaching, Detaching]"
| "allowedTargetAttachmentStates DetachmentFailed = [Detaching]"
| "allowedTargetAttachmentStates Detached = []"

text \<open>
  Modelled from the spec: \<open>containsString\<close> and \<open>formatUpdateStateError\<close> live in the
  controller package's common file, which is not among the sources. The first tells whether
  the key is an element of the slice; the second builds the message of the precondition
  error, which identifies the current state, the requested state and the allowed set, kept
  here as the three values themselves.
\<close>

fun containsString :: "'a \<Rightarrow> 'a list \<Rightarrow> bool" where
  "containsString key [] = False"
| "containsString key (item # items) = (if item = key then True else containsString key items)"

fun state_name :: "AzVolumeAttachmentAttachmentState \<Rightarrow> string" where
  "state_name AttachmentPending = ''AttachmentPending''"
| "state_name Attaching = ''Attaching''"
| "state_name Attached = ''Attached''"
| "state_name AttachmentFailed = ''AttachmentFailed''"
| "state_name Detaching = ''Detaching''"
| "state_name Detached = ''Detached''"
| "state_name DetachmentFailed = ''DetachmentFailed''"

definition formatUpdateStateError ::
  "string \<Rightarrow> AzVolumeAttachmentAttachmentState \<Rightarrow> AzVolumeAttachmentAttachmentState \<Rightarrow>
   AzVolumeAttachmentAttachmentState list \<Rightarrow> string" where
  "formatUpdateStateError objectType fromState toState expectedStates =
     objectType @ '' '' @ state_name fromState @ '' -> '' @ state_name toState @ '' expected:''
       @ concat (map (\<lambda>s. '' '' @ state_name s) expectedStates)"

text \<open>
  \<open>updateState\<close>: the state is written only when no error was raised; the resource is
  returned in both cases, with the error.
\<close>

definition updateState ::
  "AzVolumeAttachment option \<Rightarrow> AzVolumeAttachmentAttachmentState \<Rightarrow>
   AzVolumeAttachment option \<times> go_error option" where
  "updateState azVolumeAttachment state =
     (case azVolumeAttachment of
        None \<Rightarrow> (None, Some (StatusError FailedPrecondition
                  ''function `updateState` requires non-nil AzVolumeAttachment object.''))
      | Some azv \<Rightarrow>
          (let expectedStates = allowedTargetAttachmentStates (State azv);
               err = (if \<not> containsString state expectedStates
                      then Some (StatusError FailedPrecondition
                             (formatUpdateStateError ''azVolume'' (State azv) state expectedStates))
                      else None)
           in (if err = None then Some (azv\<lparr>State := state\<rparr>) else Some azv, err)))"

text \<open>The transition table as the specification lists it, pair by pair.\<close>

definition transition_table ::
  "(AzVolumeAttachmentAttachmentState \<times> AzVolumeAttachmentAttachmentState) list" where
  "transition_table =
     [(AttachmentPending, Attaching), (AttachmentPending, Detaching),
      (Attaching, Attached), (Attaching, AttachmentFailed),
      (Detaching, Detached), (Detaching, DetachmentFailed),
      (Attached, Detaching),
      (AttachmentFailed, Attaching), (AttachmentFailed, Detaching),
      (DetachmentFailed, Detaching)]"

section \<open>Triggers and the reconciler\<close>

text \<open>
  The goroutine of \<open>triggerAttach\<close>: it calls the provisioner with the volume ID, the node
  and the volume context of the resource the trigger was called with, and writes the outcome
  through \<open>UpdateCRIWithRetry\<close>; an error of that last write is only logged. The goroutine
  of \<open>triggerDetach\<close> does the same with \<open>detachVolume\<close>.
\<close>

definition attach_goroutine :: "world \<Rightarrow> AzVolumeAttachment \<Rightarrow> world" where
  "attach_goroutine w azVolumeAttachment =
     (case attachVolume w (VolumeID azVolumeAttachment) (NodeName azVolumeAttachment)
             (VolumeContext azVolumeAttachment) of
        (w1, Inl err) \<Rightarrow>
          fst (UpdateCRIWithRetry w1 azVolumeAttachment
                 (\<lambda>obj. case updateState (updateError (Some obj) (Some err)) AttachmentFailed of
                          (azv, derr) \<Rightarrow> (at_pointer obj azv, derr)))
      | (w1, Inr response) \<Rightarrow>
          fst (UpdateCRIWithRetry w1 azVolumeAttachment
                 (\<lambda>obj. case updateState (updateStatusDetail (Some obj) response) Attached of
                          (azv, derr) \<Rightarrow> (at_pointer obj azv, derr))))"

definition detach_goroutine :: "world \<Rightarrow> AzVolumeAttachment \<Rightarrow> world" where
  "detach_goroutine w azVolumeAttachment =
     (case detachVolume w (VolumeID azVolumeAttachment) (NodeName azVolumeAttachment) of
        (w1, Some err) \<Rightarrow>
          fst (UpdateCRIWithRetry w1 azVolumeAttachment
                 (\<lambda>obj. case updateState (updateError (Some obj) (Some err)) DetachmentFailed of
                          (azv, derr) \<Rightarrow> (at_pointer obj azv, derr)))
      | (w1, None) \<Rightarrow>
          fst (UpdateCRIWithRetry w1 azVolumeAttachment
                 (\<lambda>obj. case updateState (deleteFinalizer (Some obj)) Detached of
                          (azv, derr) \<Rightarrow> (at_pointer obj azv, derr))))"

fun run_goroutine :: "world \<Rightarrow> goroutine \<Rightarrow> world" where
  "run_goroutine w (AttachGoroutine azVolumeAttachment) = attach_goroutine w azVolumeAttachment"
| "run_goroutine w (DetachGoroutine azVolumeAttachment) = detach_goroutine w azVolumeAttachment"

text \<open>
  \<open>triggerAttach\<close>. The deferred \<open>stateLock.Delete\<close> runs at every return that follows the
  \<open>defer\<close> statement, so not at the return of the requeue error.
\<close>

definition triggerAttach :: "world \<Rightarrow> AzVolumeAttachment \<Rightarrow> world \<times> go_error option" where
  "triggerAttach w azVolumeAttachment =
     (case LoadOrStore (stateLock w) (Name azVolumeAttachment) of
        (m, True) \<Rightarrow> (w, Some (getOperationRequeueError ''attach'' azVolumeAttachment))
      | (m, False) \<Rightarrow>
          (case UpdateCRIWithRetry (w\<lparr>stateLock := m\<rparr>) azVolumeAttachment
                  (\<lambda>obj. case updateState (initializeMeta (Some obj)) Attaching of
                           (azv, derr) \<Rightarrow> (at_pointer obj azv, derr)) of
             (w1, Some err) \<Rightarrow>
               (w1\<lparr>stateLock := Delete (stateLock w1) (Name azVolumeAttachment)\<rparr>, Some err)
           | (w1, None) \<Rightarrow>
               (w1\<lparr>goroutines := goroutines w1 @ [AttachGoroutine azVolumeAttachment],
                   stateLock := Delete (stateLock w1) (Name azVolumeAttachment)\<rparr>, None)))"

text \<open>
  \<open>triggerDetach\<close>. The first part computes \<open>detachmentRequested\<close>, or returns the error of
  the read of the low-level \<open>VolumeAttachment\<close> when it is not a not-found error; the
  annotation's value is the name that is read (the empty string never occurs there, the
  annotation being present).
\<close>

definition detachmentRequested :: "world \<Rightarrow> AzVolumeAttachment \<Rightarrow> go_error + bool" where
  "detachmentRequested w azVolumeAttachment =
     (case (if HasAnnotation azVolumeAttachment VolumeAttachmentExistsAnnotation
            then (case getVolumeAttachment w
                         (case Annotations azVolumeAttachment VolumeAttachmentExistsAnnotation of
                            None \<Rightarrow> [] | Some vaName \<Rightarrow> vaName) of
                    Inl err \<Rightarrow> if \<not> IsNotFound (Some err) then Inl err else Inr True
                  | Inr volumeAttachment \<Rightarrow> Inr (va_DeletionTimestamp volumeAttachment \<noteq> None))
            else Inr True) of
        Inl err \<Rightarrow> Inl err
      | Inr requested \<Rightarrow>
          Inr (requested \<or> HasAnnotation azVolumeAttachment VolumeDetachRequestAnnotation))"

definition triggerDetach :: "world \<Rightarrow> AzVolumeAttachment \<Rightarrow> world \<times> go_error option" where
  "triggerDetach w azVolumeAttachment =
     (case detachmentRequested w azVolumeAttachment of
        Inl err \<Rightarrow> (w, Some err)
      | Inr True \<Rightarrow>
          (case LoadOrStore (stateLock w) (Name azVolumeAttachment) of
             (m, True) \<Rightarrow> (w, Some (getOperationRequeueError ''detach'' azVolumeAttachment))
           | (m, False) \<Rightarrow>
               (case UpdateCRIWithRetry (w\<lparr>stateLock := m\<rparr>) azVolumeAttachment
                       (\<lambda>obj. case updateState (Some obj) Detaching of
                                (azv, derr) \<Rightarrow> (at_pointer obj azv, derr)) of
                  (w1, Some err) \<Rightarrow>
                    (w1\<lparr>stateLock := Delete (stateLock w1) (Name azVolumeAttachment)\<rparr>, Some err)
                | (w1, None) \<Rightarrow>
                    (w1\<lparr>goroutines := goroutines w1 @ [DetachGoroutine azVolumeAttachment],
                        stateLock := Delete (stateLock w1) (Name azVolumeAttachment)\<rparr>, None)))
      | Inr False \<Rightarrow>
          UpdateCRIWithRetry w azVolumeAttachment
            (\<lambda>obj. (at_pointer obj (deleteFinalizer (Some obj)), None)))"

definition promote :: "world \<Rightarrow> AzVolumeAttachment \<Rightarrow> world \<times> go_error option" where
  "promote w azVolumeAttachment =
     UpdateCRIWithRetry w azVolumeAttachment
       (\<lambda>obj. (at_pointer obj (updateRole (Some obj) PrimaryRole), None))"

text \<open>
  \<open>Reconcile\<close>: the request is the name of the resource (the namespace is the
  controller's). \<open>after_trigger\<close> is what follows a trigger step: its error goes through
  \<open>reconcileReturnOnError\<close>, and without an error the function falls through to its last
  \<open>return\<close>.
\<close>

definition after_trigger ::
  "AzVolumeAttachment \<Rightarrow> string \<Rightarrow> world \<times> go_error option \<Rightarrow> world \<times> Result \<times> go_error option" where
  "after_trigger azVolumeAttachment operationType r =
     (case r of
        (w, Some err) \<Rightarrow> (w, reconcileReturnOnError azVolumeAttachment operationType err)
      | (w, None) \<Rightarrow> (w, \<lparr>Requeue = False\<rparr>, None))"

definition Reconcile :: "world \<Rightarrow> string \<Rightarrow> world \<times> Result \<times> go_error option" where
  "Reconcile w request =
     (case GetAzVolumeAttachment w request of
        Inl err \<Rightarrow>
          if IsNotFound (Some err) then (w, \<lparr>Requeue = False\<rparr>, None)
          else (w, \<lparr>Requeue = True\<rparr>, Some err)
      | Inr azVolumeAttachment \<Rightarrow>
          if isOperationInProcess azVolumeAttachment then (w, \<lparr>Requeue = False\<rparr>, None)
          else if deletionRequested azVolumeAttachment then
            (if State azVolumeAttachment = AttachmentPending \<or>
                State azVolumeAttachment = Attached \<or>
                State azVolumeAttachment = AttachmentFailed \<or>
                State azVolumeAttachment = DetachmentFailed
             then after_trigger azVolumeAttachment ''detach'' (triggerDetach w azVolumeAttachment)
             else (w, \<lparr>Requeue = False\<rparr>, None))
          else
            (case Detail azVolumeAttachment of
               None \<Rightarrow>
                 if State azVolumeAttachment = AttachmentPending \<or>
                    State azVolumeAttachment = AttachmentFailed
                 then after_trigger azVolumeAttachment ''attach''
                        (triggerAttach w azVolumeAttachment)
                 else (w, \<lparr>Requeue = False\<rparr>, None)
             | Some detail \<Rightarrow>
                 if RequestedRole azVolumeAttachment \<noteq> Role detail
                 then after_trigger azVolumeAttachment ''promote'' (promote w azVolumeAttachment)
                 else (w, \<lparr>Requeue = False\<rparr>, None)))"

section \<open>Recovery\<close>

text \<open>
  Modelled from the spec: \<open>azureutils.GetDiskNameFromAzureManagedDiskURI\<close>,
  \<open>azureutils.GetAzVolumeAttachmentName\<close> and \<open>azureutils.GetAzVolumeAttachmentState\<close> are
  not among the sources, nor is the constant \<open>maxRetry\<close>. The name of a record is derived
  from the disk name and the node name alone, and the state from the attach status of the
  low-level object; nothing more is said of them, so they are parameters of the recovery
  functions.
\<close>

record azureutils =
  GetDiskNameFromAzureManagedDiskURI :: "string \<Rightarrow> go_error + string"
  GetAzVolumeAttachmentName :: "string \<Rightarrow> string \<Rightarrow> string"
  GetAzVolumeAttachmentState :: "VolumeAttachmentStatus \<Rightarrow> AzVolumeAttachmentAttachmentState"

text \<open>
  The two maps of \<open>syncAll\<close> hold only the value \<open>true\<close>; they are the sets of their keys,
  and a nil map is the empty set. The result of \<open>syncAll\<close> is its four values.
\<close>

type_synonym sync_result = "bool \<times> string set \<times> string set \<times> go_error option"

text \<open>
  The resource that \<open>syncAll\<close> creates for a binding, given the name of the persistent
  volume, its volume handle and the derived name.
\<close>

definition new_AzVolumeAttachment ::
  "azureutils \<Rightarrow> VolumeAttachment \<Rightarrow> string \<Rightarrow> string \<Rightarrow> string \<Rightarrow> AzVolumeAttachment" where
  "new_AzVolumeAttachment u volumeAttachment volumeName volumeHandle azVolumeAttachmentName =
     (let azVolumeAttachment =
            \<lparr>Name = azVolumeAttachmentName,
             Namespace = [],
             Labels = [NodeNameLabel \<mapsto> va_NodeName volumeAttachment,
                       VolumeNameLabel \<mapsto> volumeName],
             Annotations = Map.empty,
             Finalizers = [AzVolumeAttachmentFinalizer],
             CreationTimestamp = 0,
             DeletionTimestamp = None,
             UnderlyingVolume = volumeName,
             VolumeID = volumeHandle,
             NodeName = va_NodeName volumeAttachment,
             RequestedRole = PrimaryRole,
             VolumeContext = Map.empty,
             Detail = None,
             State = GetAzVolumeAttachmentState u (va_Status volumeAttachment),
             Error = None\<rparr>
      in if State azVolumeAttachment = Attached
         then azVolumeAttachment\<lparr>Detail := Some \<lparr>Role = PrimaryRole, PublishContext = Map.empty\<rparr>\<rparr>
         else azVolumeAttachment)"

text \<open>
  One round of the loop of \<open>syncAll\<close>: \<open>Inl\<close> is a \<open>return\<close> out of the function, \<open>Inr\<close>
  the world and the two maps with which the loop goes on (also after \<open>continue\<close>).
\<close>

definition sync_volumeAttachment ::
  "azureutils \<Rightarrow> world \<Rightarrow> string set \<Rightarrow> string set \<Rightarrow> VolumeAttachment \<Rightarrow>
   (world \<times> sync_result) + (world \<times> string set \<times> string set)" where
  "sync_volumeAttachment u w syncedVolumeAttachments volumesToSync volumeAttachment =
     (if va_Name volumeAttachment \<in> syncedVolumeAttachments
      then Inr (w, syncedVolumeAttachments, volumesToSync)
      else if va_Attacher volumeAttachment = DriverName then
        (case va_PersistentVolumeName volumeAttachment of
           None \<Rightarrow> Inr (w, syncedVolumeAttachments, volumesToSync)
         | Some volumeName \<Rightarrow>
             (case getPersistentVolume w volumeName of
                Inl err \<Rightarrow> Inl (w, True, syncedVolumeAttachments, volumesToSync, Some err)
              | Inr pv \<Rightarrow>
                  (case pv_CSI pv of
                     None \<Rightarrow> Inr (w, syncedVolumeAttachments, volumesToSync)
                   | Some csi \<Rightarrow>
                       if Driver csi \<noteq> DriverName
                       then Inr (w, syncedVolumeAttachments, volumesToSync)
                       else
                         (case GetDiskNameFromAzureManagedDiskURI u (VolumeHandle csi) of
                            Inl err \<Rightarrow>
                              Inr (w, syncedVolumeAttachments,
                                   insert (VolumeHandle csi) volumesToSync - {VolumeHandle csi})
                          | Inr diskName \<Rightarrow>
                              (let volumesToSync = insert (VolumeHandle csi) volumesToSync;
                                   azVolumeAttachmentName =
                                     GetAzVolumeAttachmentName u diskName
                                       (va_NodeName volumeAttachment)
                               in case GetAzVolumeAttachment w azVolumeAttachmentName of
                                    Inr azVolumeAttachment \<Rightarrow>
                                      (case update w (initializeMeta (Some azVolumeAttachment)) of
                                         (w1, Some err) \<Rightarrow>
                                           Inl (w1, True, syncedVolumeAttachments,
                                                volumesToSync, Some err)
                                       | (w1, None) \<Rightarrow>
                                           Inr (w1,
                                                insert (va_Name volumeAttachment)
                                                  syncedVolumeAttachments,
                                                volumesToSync))
                                  | Inl err \<Rightarrow>
                                      if IsNotFound (Some err) then
                                        (case client_Create w
                                                (new_AzVolumeAttachment u volumeAttachment
                                                   volumeName (VolumeHandle csi)
                                                   azVolumeAttachmentName) of
                                           (w1, Some cerr) \<Rightarrow>
                                             Inl (w1, True, syncedVolumeAttachments,
                                                  volumesToSync, Some cerr)
                                         | (w1, None) \<Rightarrow>
                                             Inr (w1,
                                                  insert (va_Name volumeAttachment)
                                                    syncedVolumeAttachments,
                                                  volumesToSync))
                                      else Inl (w, True, syncedVolumeAttachments,
                                                volumesToSync, Some err))))))
      else Inr (w, syncedVolumeAttachments, volumesToSync))"

fun sync_loop ::
  "azureutils \<Rightarrow> world \<Rightarrow> string set \<Rightarrow> string set \<Rightarrow> VolumeAttachment list \<Rightarrow>
   world \<times> sync_result" where
  "sync_loop u w syncedVolumeAttachments volumesToSync [] =
     (w, False, syncedVolumeAttachments, volumesToSync, None)"
| "sync_loop u w syncedVolumeAttachments volumesToSync (volumeAttachment # items) =
     (case sync_volumeAttachment u w syncedVolumeAttachments volumesToSync volumeAttachment of
        Inl r \<Rightarrow> r
      | Inr (w1, synced1, volumes1) \<Rightarrow> sync_loop u w1 synced1 volumes1 items)"

definition syncAll :: "azureutils \<Rightarrow> world \<Rightarrow> string set \<Rightarrow> string set \<Rightarrow> world \<times> sync_result" where
  "syncAll u w syncedVolumeAttachments volumesToSync =
     (case listVolumeAttachments w of
        Inl err \<Rightarrow> (w, True, syncedVolumeAttachments, volumesToSync, Some err)
      | Inr items \<Rightarrow> sync_loop u w syncedVolumeAttachments volumesToSync items)"

text \<open>
  \<open>Recover\<close>: at most \<open>maxRetry\<close> passes, each starting from the maps the one before left;
  it returns nil whatever the passes returned.
\<close>

fun Recover_loop :: "azureutils \<Rightarrow> nat \<Rightarrow> world \<Rightarrow> string set \<Rightarrow> string set \<Rightarrow> world" where
  "Recover_loop u 0 w syncedVolumeAttachments volumesToSync = w"
| "Recover_loop u (Suc n) w syncedVolumeAttachments volumesToSync =
     (case syncAll u w syncedVolumeAttachments volumesToSync of
        (w1, retry, synced1, volumes1, err) \<Rightarrow>
          if \<not> retry then w1 else Recover_loop u n w1 synced1 volumes1)"

definition Recover :: "azureutils \<Rightarrow> nat \<Rightarrow> world \<Rightarrow> world \<times> go_error option" where
  "Recover u maxRetry w = (Recover_loop u maxRetry w {} {}, None)"


section \<open>The command \<open>azva\<close> of \<open>az-analyze\<close>\<close>

text \<open>
  The command reads the cluster through two clientsets. A read either fails with an error,
  on which the listing functions panic, or answers with objects; only the fields the command
  reads are kept: of a pod its name and, for each of its volumes, the claim name when the
  volume is a persistent volume claim; of a node its name and labels. \<open>now\<close> is the time
  \<open>metav1.Now()\<close> gives.

  Modelled from the spec: \<open>getDriverNamesapce\<close>, \<open>getConfig\<close>, \<open>getKubernetesClientset\<close>,
  \<open>getAzDiskClientset\<close> and \<open>timeFmt\<close> of the command package and the constants
  \<open>consts.PvcNameKey\<close> and \<open>consts.WellKnownTopologyKey\<close> are not among the sources. The
  records are listed in the driver's namespace, whatever its name; building the clientsets
  reads the configuration and asks the cluster nothing; the two keys stand for the claim
  name in a volume context and for the zone among a node's labels.
\<close>

definition PvcNameKey :: string where
  "PvcNameKey = ''csi.storage.k8s.io/pvc/name''"

definition WellKnownTopologyKey :: string where
  "WellKnownTopologyKey = ''topology.kubernetes.io/zone''"

record Pod =
  pod_Name :: string
  pod_Volumes :: "string option list"

record Node =
  node_Name :: string
  node_Labels :: "string \<rightharpoonup> string"

record cluster =
  listPods :: "string \<Rightarrow> go_error + Pod list"
  getPod :: "string \<Rightarrow> string \<Rightarrow> go_error + Pod"
  listAzVolumeAttachments :: "go_error + AzVolumeAttachment list"
  getNode :: "string \<Rightarrow> go_error + Node"
  listNodes :: "go_error + Node list"
  now :: int

datatype panic = PanicError string | NilPointerDereference

record AzvaResource =
  ResourceType :: string
  res_Namespace :: string
  res_Name :: string
  res_Age :: int
  res_RequestRole :: Role
  res_Role :: Role
  res_State :: AzVolumeAttachmentAttachmentState

record AzvaResourceAll =
  PodName :: string
  all_NodeName :: string
  ZoneName :: string
  all_Namespace :: string
  all_Name :: string
  all_Age :: int
  all_RequestRole :: Role
  all_Role :: Role
  all_State :: AzVolumeAttachmentAttachmentState

text \<open>
  What the command does that can be seen: the reads it sends to the cluster and what it
  prints. \<open>PrintResult\<close> is the \<open>fmt.Println(result)\<close> of a listing function, \<open>DisplayAzva\<close>
  and \<open>DisplayAzvaAll\<close> are the rendered tables.
\<close>

datatype event =
    QueryListPods string
  | QueryGetPod string string
  | QueryListAzVolumeAttachments
  | QueryGetNode string
  | QueryListNodes
  | Print string
  | PrintResult "AzvaResource list"
  | PrintResultAll "AzvaResourceAll list"
  | DisplayAzva "AzvaResource list" string
  | DisplayAzvaAll "AzvaResourceAll list"

text \<open>Reading a Go map of strings at a key that is absent gives the empty string.\<close>

definition map_index :: "(string \<rightharpoonup> string) \<Rightarrow> string \<Rightarrow> string" where
  "map_index m key = (case m key of None \<Rightarrow> [] | Some v \<Rightarrow> v)"

text \<open>
  The loop over the volumes of a pod that fills \<open>pvcClaimNameSet\<close>, and the loop over pods
  around it.
\<close>

fun add_claims :: "string \<Rightarrow> string option list \<Rightarrow> (string \<rightharpoonup> string list) \<Rightarrow> (string \<rightharpoonup> string list)" where
  "add_claims podName [] pvcClaimNameSet = pvcClaimNameSet"
| "add_claims podName (v # volumes) pvcClaimNameSet =
     (case v of
        None \<Rightarrow> add_claims podName volumes pvcClaimNameSet
      | Some claimName \<Rightarrow>
          add_claims podName volumes
            (pvcClaimNameSet(claimName \<mapsto>
               (case pvcClaimNameSet claimName of None \<Rightarrow> [] | Some names \<Rightarrow> names) @ [podName])))"

fun add_pods :: "Pod list \<Rightarrow> (string \<rightharpoonup> string list) \<Rightarrow> (string \<rightharpoonup> string list)" where
  "add_pods [] pvcClaimNameSet = pvcClaimNameSet"
| "add_pods (pod # pods) pvcClaimNameSet =
     add_pods pods (add_claims (pod_Name pod) (pod_Volumes pod) pvcClaimNameSet)"

text \<open>
  The rows. Each one reads \<open>Status.Detail.Role\<close>: with a nil \<open>Detail\<close> that is a nil
  pointer dereference, a run-time panic.
\<close>

definition resource_row :: "int \<Rightarrow> string \<Rightarrow> AzVolumeAttachment \<Rightarrow> panic + AzvaResource" where
  "resource_row t resourceType azVolumeAttachment =
     (case Detail azVolumeAttachment of
        None \<Rightarrow> Inl NilPointerDereference
      | Some detail \<Rightarrow>
          Inr \<lparr>ResourceType = resourceType,
               res_Namespace = Namespace azVolumeAttachment,
               res_Name = Name azVolumeAttachment,
               res_Age = t - CreationTimestamp azVolumeAttachment,
               res_RequestRole = RequestedRole azVolumeAttachment,
               res_Role = Role detail,
               res_State = State azVolumeAttachment\<rparr>)"

definition resource_row_all ::
  "int \<Rightarrow> string \<Rightarrow> string \<Rightarrow> string \<Rightarrow> AzVolumeAttachment \<Rightarrow> panic + AzvaResourceAll" where
  "resource_row_all t pName nodeName zoneName azVolumeAttachment =
     (case Detail azVolumeAttachment of
        None \<Rightarrow> Inl NilPointerDereference
      | Some detail \<Rightarrow>
          Inr \<lparr>PodName = pName,
               all_NodeName = nodeName,
               ZoneName = zoneName,
               all_Namespace = Namespace azVolumeAttachment,
               all_Name = Name azVolumeAttachment,
               all_Age = t - CreationTimestamp azVolumeAttachment,
               all_RequestRole = RequestedRole azVolumeAttachment,
               all_Role = Role detail,
               all_State = State azVolumeAttachment\<rparr>)"

text \<open>The inner loops over the pod names of a claim.\<close>

fun rows_of_pods ::
  "int \<Rightarrow> AzVolumeAttachment \<Rightarrow> string list \<Rightarrow> AzvaResource list \<Rightarrow> panic + AzvaResource list" where
  "rows_of_pods t azVolumeAttachment [] result = Inr result"
| "rows_of_pods t azVolumeAttachment (pName # pNames) result =
     (case resource_row t pName azVolumeAttachment of
        Inl p \<Rightarrow> Inl p
      | Inr row \<Rightarrow> rows_of_pods t azVolumeAttachment pNames (result @ [row]))"

fun rows_of_pods_all ::
  "int \<Rightarrow> string \<Rightarrow> string \<Rightarrow> AzVolumeAttachment \<Rightarrow> string list \<Rightarrow> AzvaResourceAll list \<Rightarrow>
   panic + AzvaResourceAll list" where
  "rows_of_pods_all t nodeName zoneName azVolumeAttachment [] result = Inr result"
| "rows_of_pods_all t nodeName zoneName azVolumeAttachment (pName # pNames) result =
     (case resource_row_all t pName nodeName zoneName azVolumeAttachment of
        Inl p \<Rightarrow> Inl p
      | Inr row \<Rightarrow>
          rows_of_pods_all t nodeName zoneName azVolumeAttachment pNames (result @ [row]))"

text \<open>
  The loops over the records. Each takes the rows so far and gives the reads it sent with
  the rows, or with the panic that ended it.
\<close>

fun all_loop ::
  "cluster \<Rightarrow> (string \<rightharpoonup> string list) \<Rightarrow> AzVolumeAttachment list \<Rightarrow> AzvaResourceAll list \<Rightarrow>
   event list \<times> (panic + AzvaResourceAll list)" where
  "all_loop c pvcClaimNameSet [] result = ([], Inr result)"
| "all_loop c pvcClaimNameSet (azVolumeAttachment # items) result =
     (case getNode c (NodeName azVolumeAttachment) of
        Inl err \<Rightarrow> ([QueryGetNode (NodeName azVolumeAttachment)], Inl (PanicError (Error_text err)))
      | Inr node \<Rightarrow>
          (case (case pvcClaimNameSet (map_index (VolumeContext azVolumeAttachment) PvcNameKey) of
                   None \<Rightarrow> Inr result
                 | Some pNames \<Rightarrow>
                     rows_of_pods_all (now c) (NodeName azVolumeAttachment)
                       (map_index (node_Labels node) WellKnownTopologyKey)
                       azVolumeAttachment pNames result) of
             Inl p \<Rightarrow> ([QueryGetNode (NodeName azVolumeAttachment)], Inl p)
           | Inr result1 \<Rightarrow>
               (case all_loop c pvcClaimNameSet items result1 of
                  (evs, r) \<Rightarrow> (QueryGetNode (NodeName azVolumeAttachment) # evs, r))))"

fun pod_loop ::
  "int \<Rightarrow> (string \<rightharpoonup> string list) \<Rightarrow> AzVolumeAttachment list \<Rightarrow> AzvaResource list \<Rightarrow>
   panic + AzvaResource list" where
  "pod_loop t pvcClaimNameSet [] result = Inr result"
| "pod_loop t pvcClaimNameSet (azVolumeAttachment # items) result =
     (case (case pvcClaimNameSet (map_index (VolumeContext azVolumeAttachment) PvcNameKey) of
              None \<Rightarrow> Inr result
            | Some pNames \<Rightarrow> rows_of_pods t azVolumeAttachment pNames result) of
        Inl p \<Rightarrow> Inl p
      | Inr result1 \<Rightarrow> pod_loop t pvcClaimNameSet items result1)"

fun node_loop ::
  "int \<Rightarrow> string \<Rightarrow> AzVolumeAttachment list \<Rightarrow> AzvaResource list \<Rightarrow> panic + AzvaResource list" where
  "node_loop t nodeName [] result = Inr result"
| "node_loop t nodeName (azVolumeAttachment # items) result =
     (if NodeName azVolumeAttachment = nodeName
      then (case resource_row t (NodeName azVolumeAttachment) azVolumeAttachment of
              Inl p \<Rightarrow> Inl p
            | Inr row \<Rightarrow> node_loop t nodeName items (result @ [row]))
      else node_loop t nodeName items result)"

fun zone_loop ::
  "int \<Rightarrow> (string \<rightharpoonup> string) \<Rightarrow> AzVolumeAttachment list \<Rightarrow> AzvaResource list \<Rightarrow>
   panic + AzvaResource list" where
  "zone_loop t nodeSet [] result = Inr result"
| "zone_loop t nodeSet (azVolumeAttachment # items) result =
     (case nodeSet (NodeName azVolumeAttachment) of
        None \<Rightarrow> zone_loop t nodeSet items result
      | Some zName \<Rightarrow>
          (case resource_row t zName azVolumeAttachment of
             Inl p \<Rightarrow> Inl p
           | Inr row \<Rightarrow> zone_loop t nodeSet items (result @ [row])))"

fun add_nodes :: "string \<Rightarrow> Node list \<Rightarrow> (string \<rightharpoonup> string) \<Rightarrow> (string \<rightharpoonup> string)" where
  "add_nodes zoneName [] nodeSet = nodeSet"
| "add_nodes zoneName (node # nodes) nodeSet =
     (if map_index (node_Labels node) WellKnownTopologyKey = zoneName
      then add_nodes zoneName nodes
             (nodeSet(node_Name node \<mapsto> map_index (node_Labels node) WellKnownTopologyKey))
      else add_nodes zoneName nodes nodeSet)"

text \<open>
  The four listing functions. Each returns the events up to its return or its panic; the
  last event of a run that returns is the debugging print of the result.
\<close>

definition GetAllAzVolumeAttachements ::
  "cluster \<Rightarrow> string \<Rightarrow> event list \<times> (panic + AzvaResourceAll list)" where
  "GetAllAzVolumeAttachements c namespace =
     (let namespace = (if namespace = [] then ''default'' else namespace)
      in case listPods c namespace of
           Inl err \<Rightarrow> ([QueryListPods namespace], Inl (PanicError (Error_text err)))
         | Inr pods \<Rightarrow>
             (case listAzVolumeAttachments c of
                Inl err \<Rightarrow>
                  ([QueryListPods namespace, QueryListAzVolumeAttachments],
                   Inl (PanicError (Error_text err)))
              | Inr items \<Rightarrow>
                  (case all_loop c (add_pods pods Map.empty) items [] of
                     (evs, Inl p) \<Rightarrow>
                       ([QueryListPods namespace, QueryListAzVolumeAttachments] @ evs, Inl p)
                   | (evs, Inr result) \<Rightarrow>
                       ([QueryListPods namespace, QueryListAzVolumeAttachments] @ evs
                          @ [PrintResultAll result], Inr result))))"

definition GetAzVolumeAttachementsByPod ::
  "cluster \<Rightarrow> string \<Rightarrow> string \<Rightarrow> event list \<times> (panic + AzvaResource list)" where
  "GetAzVolumeAttachementsByPod c podName namespace =
     (let namespace = (if namespace = [] then ''default'' else namespace)
      in case getPod c namespace podName of
           Inl err \<Rightarrow> ([QueryGetPod namespace podName], Inl (PanicError (Error_text err)))
         | Inr pod \<Rightarrow>
             (case listAzVolumeAttachments c of
                Inl err \<Rightarrow>
                  ([QueryGetPod namespace podName, QueryListAzVolumeAttachments],
                   Inl (PanicError (Error_text err)))
              | Inr items \<Rightarrow>
                  (case pod_loop (now c)
                          (add_claims (pod_Name pod) (pod_Volumes pod) Map.empty) items [] of
                     Inl p \<Rightarrow>
                       ([QueryGetPod namespace podName, QueryListAzVolumeAttachments], Inl p)
                   | Inr result \<Rightarrow>
                       ([QueryGetPod namespace podName, QueryListAzVolumeAttachments,
                         PrintResult result], Inr result))))"

definition GetAzVolumeAttachementsByNode ::
  "cluster \<Rightarrow> string \<Rightarrow> event list \<times> (panic + AzvaResource list)" where
  "GetAzVolumeAttachementsByNode c nodeName =
     (case listAzVolumeAttachments c of
        Inl err \<Rightarrow> ([QueryListAzVolumeAttachments], Inl (PanicError (Error_text err)))
      | Inr items \<Rightarrow>
          (case node_loop (now c) nodeName items [] of
             Inl p \<Rightarrow> ([QueryListAzVolumeAttachments], Inl p)
           | Inr result \<Rightarrow> ([QueryListAzVolumeAttachments, PrintResult result], Inr result)))"

definition GetAzVolumeAttachementsByZone ::
  "cluster \<Rightarrow> string \<Rightarrow> event list \<times> (panic + AzvaResource list)" where
  "GetAzVolumeAttachementsByZone c zoneName =
     (case listNodes c of
        Inl err \<Rightarrow> ([QueryListNodes], Inl (PanicError (Error_text err)))
      | Inr nodes \<Rightarrow>
          (case listAzVolumeAttachments c of
             Inl err \<Rightarrow>
               ([QueryListNodes, QueryListAzVolumeAttachments], Inl (PanicError (Error_text err)))
           | Inr items \<Rightarrow>
               (case zone_loop (now c) (add_nodes zoneName nodes Map.empty) items [] of
                  Inl p \<Rightarrow> ([QueryListNodes, QueryListAzVolumeAttachments], Inl p)
                | Inr result \<Rightarrow>
                    ([QueryListNodes, QueryListAzVolumeAttachments, PrintResult result],
                     Inr result))))"

text \<open>
  The flags of the command as the command line gave them: \<open>None\<close> for a flag that was not
  given, whose value is the default, the empty string. \<open>NFlag\<close> counts the flags that were
  given.
\<close>

record flags =
  flag_pod :: "string option"
  flag_node :: "string option"
  flag_zone :: "string option"
  flag_namespace :: "string option"

definition GetString :: "string option \<Rightarrow> string" where
  "GetString f = (case f of None \<Rightarrow> [] | Some v \<Rightarrow> v)"

definition NFlag :: "flags \<Rightarrow> int" where
  "NFlag fl =
     int (length (filter (\<lambda>f. f \<noteq> None)
            [flag_pod fl, flag_node fl, flag_zone fl, flag_namespace fl]))"




text \<open>
  The variable \<open>numFlag\<close> of \<open>Run\<close>: the number of flags given, less one when the
  value of the namespace flag is not empty.
\<close>

definition numFlag :: "flags \<Rightarrow> int" where
  "numFlag fl = (if GetString (flag_namespace fl) \<noteq> [] then NFlag fl - 1 else NFlag fl)"


section \<open>Specification-side notions and example inputs\<close>

text \<open>
  The metadata that \<open>initializeMeta\<close> looks for: the driver's finalizer and the three
  labels.
\<close>

definition metadata_present :: "AzVolumeAttachment \<Rightarrow> bool" where
  "metadata_present azv =
     (finalizerExists (Finalizers azv) AzVolumeAttachmentFinalizer \<and>
      labelExists (Labels azv) NodeNameLabel \<and>
      labelExists (Labels azv) VolumeNameLabel \<and>
      labelExists (Labels azv) RoleLabel)"

text \<open>A record as an upstream component creates it, before the controller has seen it.\<close>

definition example_record :: AzVolumeAttachment where
  "example_record =
     \<lparr>Name = ''disk-1-node-1-attachment'',
      Namespace = ''azure-disk-csi'',
      Labels = Map.empty,
      Annotations = Map.empty,
      Finalizers = [],
      CreationTimestamp = 100,
      DeletionTimestamp = None,
      UnderlyingVolume = ''pv-1'',
      VolumeID = ''/subscriptions/s/resourceGroups/g/providers/Microsoft.Compute/disks/disk-1'',
      NodeName = ''node-1'',
      RequestedRole = PrimaryRole,
      VolumeContext = Map.empty,
      Detail = None,
      State = AttachmentPending,
      Error = None\<rparr>"

text \<open>
  A record that carries all its metadata, with a role label left from the time when the
  requested role was \<open>Replica\<close>.
\<close>

definition stale_role_record :: AzVolumeAttachment where
  "stale_role_record =
     example_record
       \<lparr>Labels := [NodeNameLabel \<mapsto> ''node-1'', VolumeNameLabel \<mapsto> ''pv-1'',
                   RoleLabel \<mapsto> ''Replica''],
        Finalizers := [AzVolumeAttachmentFinalizer]\<rparr>"

text \<open>
  A world in which the store holds \<open>example_record\<close> alone, the API server answers every
  call, no low-level object exists, the provisioner succeeds, nobody holds a lock and no
  goroutine is waiting.
\<close>

definition example_world :: world where
  "example_world =
     \<lparr>store = [''disk-1-node-1-attachment'' \<mapsto> example_record],
      apiFault = (\<lambda>call. None),
      getVolumeAttachment = (\<lambda>name. Inl (ApiNotFound name)),
      listVolumeAttachments = Inr [],
      getPersistentVolume = (\<lambda>name. Inl (ApiNotFound name)),
      PublishVolume = (\<lambda>volumeID node volumeContext. Inr Map.empty),
      UnpublishVolume = (\<lambda>volumeID node. None),
      provisionerCalls = [],
      stateLock = {},
      goroutines = []\<rparr>"



text \<open>
  An attached primary whose requested role has been changed to \<open>Replica\<close>, and the same
  record with the roles the other way round; a world for each.
\<close>

definition demoted_record :: AzVolumeAttachment where
  "demoted_record =
     example_record
       \<lparr>RequestedRole := ReplicaRole,
        Detail := Some \<lparr>Role = PrimaryRole, PublishContext = Map.empty\<rparr>,
        State := Attached\<rparr>"

definition promoted_record :: AzVolumeAttachment where
  "promoted_record =
     example_record
       \<lparr>RequestedRole := PrimaryRole,
        Detail := Some \<lparr>Role = ReplicaRole, PublishContext = Map.empty\<rparr>,
        State := Attached\<rparr>"

definition demoted_world :: world where
  "demoted_world = example_world\<lparr>store := [''disk-1-node-1-attachment'' \<mapsto> demoted_record]\<rparr>"

definition promoted_world :: world where
  "promoted_world = example_world\<lparr>store := [''disk-1-node-1-attachment'' \<mapsto> promoted_record]\<rparr>"

text \<open>
  The intents of the reconciler. \<open>claimed_intent\<close> follows the priority order as the
  claim words it: three conditions tried one after the other, each on its own.
  \<open>nested_intent\<close> is the amended order: a record marked for deletion is detached or left
  alone, one without observed attach is attached or left alone, and only a record that is
  neither is looked at for a role mismatch. \<open>carry_out\<close> is what \<open>Reconcile\<close> does for an
  intent.
\<close>

datatype intent = DetachIntent | AttachIntent | PromoteIntent | NoIntent

definition claimed_intent :: "AzVolumeAttachment \<Rightarrow> intent" where
  "claimed_intent azv =
     (if DeletionTimestamp azv \<noteq> None \<and>
         State azv \<in> {AttachmentPending, Attached, AttachmentFailed, DetachmentFailed}
      then DetachIntent
      else if Detail azv = None \<and> State azv \<in> {AttachmentPending, AttachmentFailed}
      then AttachIntent
      else if (case Detail azv of None \<Rightarrow> False | Some d \<Rightarrow> RequestedRole azv \<noteq> Role d)
      then PromoteIntent
      else NoIntent)"

definition nested_intent :: "AzVolumeAttachment \<Rightarrow> intent" where
  "nested_intent azv =
     (if DeletionTimestamp azv \<noteq> None
      then (if State azv \<in> {AttachmentPending, Attached, AttachmentFailed, DetachmentFailed}
            then DetachIntent else NoIntent)
      else (case Detail azv of
              None \<Rightarrow>
                if State azv \<in> {AttachmentPending, AttachmentFailed}
                then AttachIntent else NoIntent
            | Some d \<Rightarrow> if RequestedRole azv \<noteq> Role d then PromoteIntent else NoIntent))"

fun carry_out ::
  "world \<Rightarrow> AzVolumeAttachment \<Rightarrow> intent \<Rightarrow> world \<times> Result \<times> go_error option" where
  "carry_out w azv DetachIntent = after_trigger azv ''detach'' (triggerDetach w azv)"
| "carry_out w azv AttachIntent = after_trigger azv ''attach'' (triggerAttach w azv)"
| "carry_out w azv PromoteIntent = after_trigger azv ''promote'' (promote w azv)"
| "carry_out w azv NoIntent = (w, \<lparr>Requeue = False\<rparr>, None)"

text \<open>
  A record that has been detached and is marked for deletion, whose requested role differs
  from the role it was attached with, and a world that stores it.
\<close>

definition detached_record :: AzVolumeAttachment where
  "detached_record =
     example_record
       \<lparr>DeletionTimestamp := Some 200,
        RequestedRole := PrimaryRole,
        Detail := Some \<lparr>Role = ReplicaRole, PublishContext = Map.empty\<rparr>,
        State := Detached\<rparr>"

definition detached_world :: world where
  "detached_world = example_world\<lparr>store := [''disk-1-node-1-attachment'' \<mapsto> detached_record]\<rparr>"

text \<open>
  The condition under which the claim lets a cloud detach be triggered: the
  volume-attachment-exists annotation is absent, or the low-level \<open>VolumeAttachment\<close> it
  names is not found or has a deletion timestamp, or the volume-detach-request annotation is
  present.
\<close>

definition named_VolumeAttachment :: "world \<Rightarrow> AzVolumeAttachment \<Rightarrow> go_error + VolumeAttachment" where
  "named_VolumeAttachment w azv =
     getVolumeAttachment w
       (case Annotations azv VolumeAttachmentExistsAnnotation of None \<Rightarrow> [] | Some vaName \<Rightarrow> vaName)"

definition detach_eligible :: "world \<Rightarrow> AzVolumeAttachment \<Rightarrow> bool" where
  "detach_eligible w azv =
     (Annotations azv VolumeAttachmentExistsAnnotation = None
      \<or> (case named_VolumeAttachment w azv of
            Inl err \<Rightarrow> IsNotFound (Some err)
          | Inr volumeAttachment \<Rightarrow> va_DeletionTimestamp volumeAttachment \<noteq> None)
      \<or> Annotations azv VolumeDetachRequestAnnotation \<noteq> None)"

text \<open>
  An attached record marked for deletion that names a low-level \<open>VolumeAttachment\<close>, a
  world in which that object exists and is not being deleted, and one in which it is gone.
\<close>

definition deleted_record :: AzVolumeAttachment where
  "deleted_record =
     example_record
       \<lparr>Annotations := [VolumeAttachmentExistsAnnotation \<mapsto> ''csi-va-1''],
        Finalizers := [AzVolumeAttachmentFinalizer],
        DeletionTimestamp := Some 200,
        Detail := Some \<lparr>Role = PrimaryRole, PublishContext = Map.empty\<rparr>,
        State := Attached\<rparr>"

definition example_volumeAttachment :: VolumeAttachment where
  "example_volumeAttachment =
     \<lparr>va_Name = ''csi-va-1'',
      va_DeletionTimestamp = None,
      va_Attacher = DriverName,
      va_NodeName = ''node-1'',
      va_PersistentVolumeName = Some ''pv-1'',
      va_Status = \<lparr>va_Attached = True, va_AttachError = None, va_DetachError = None\<rparr>\<rparr>"

definition bound_world :: world where
  "bound_world =
     example_world
       \<lparr>store := [''disk-1-node-1-attachment'' \<mapsto> deleted_record],
        getVolumeAttachment := (\<lambda>name. if name = ''csi-va-1'' then Inr example_volumeAttachment
                                        else Inl (ApiNotFound name))\<rparr>"

definition unbound_world :: world where
  "unbound_world = example_world\<lparr>store := [''disk-1-node-1-attachment'' \<mapsto> deleted_record]\<rparr>"



text \<open>
  For the command: the number of filter flags given (the namespace flag is not a filter),
  the claim name of a record, and the claim names of a pod.
\<close>

definition filters_given :: "flags \<Rightarrow> nat" where
  "filters_given fl = length (filter (\<lambda>f. f \<noteq> None) [flag_pod fl, flag_node fl, flag_zone fl])"

definition claim_of :: "AzVolumeAttachment \<Rightarrow> string" where
  "claim_of azv = map_index (VolumeContext azv) PvcNameKey"

definition zone_of :: "Node \<Rightarrow> string" where
  "zone_of node = map_index (node_Labels node) WellKnownTopologyKey"

definition default_namespace :: "string \<Rightarrow> string" where
  "default_namespace namespace = (if namespace = [] then ''default'' else namespace)"

text \<open>
  A cluster with one pod that claims \<open>pvc-1\<close>, one node in zone \<open>zone-1\<close>, and one record
  for that claim on that node which has never been attached; and a cluster without
  records.
\<close>

definition pending_claim_record :: AzVolumeAttachment where
  "pending_claim_record = example_record\<lparr>VolumeContext := [PvcNameKey \<mapsto> ''pvc-1'']\<rparr>"

definition example_cluster :: cluster where
  "example_cluster =
     \<lparr>listPods = (\<lambda>namespace. Inr [\<lparr>pod_Name = ''pod-1'', pod_Volumes = [None, Some ''pvc-1'']\<rparr>]),
      getPod = (\<lambda>namespace name.
         if name = ''pod-1'' then Inr \<lparr>pod_Name = ''pod-1'', pod_Volumes = [None, Some ''pvc-1'']\<rparr>
         else Inl (ApiNotFound name)),
      listAzVolumeAttachments = Inr [pending_claim_record],
      getNode = (\<lambda>name.
         if name = ''node-1''
         then Inr \<lparr>node_Name = ''node-1'', node_Labels = [WellKnownTopologyKey \<mapsto> ''zone-1'']\<rparr>
         else Inl (ApiNotFound name)),
      listNodes = Inr [\<lparr>node_Name = ''node-1'', node_Labels = [WellKnownTopologyKey \<mapsto> ''zone-1'']\<rparr>],
      now = 1000\<rparr>"


text \<open>A claim name is claimed in \<open>pvcClaimNameSet\<close> when it has pod names there.\<close>

definition claimed_in :: "(string \<rightharpoonup> string list) \<Rightarrow> string \<Rightarrow> bool" where
  "claimed_in pvcClaimNameSet claimName =
     (case pvcClaimNameSet claimName of None \<Rightarrow> False | Some pNames \<Rightarrow> pNames \<noteq> [])"



text \<open>
  For the recovery engine. A binding that \<open>syncAll\<close> takes up has this driver as its
  attacher and a persistent volume that resolves to a CSI volume of this driver with a
  managed-disk handle; \<open>binding_target\<close> gives the name of that volume, its handle and the
  name derived for the record, and \<open>None\<close> for any other binding. The store is well formed
  when each record is kept under its own name.
\<close>

definition binding_target ::
  "azureutils \<Rightarrow> world \<Rightarrow> VolumeAttachment \<Rightarrow> (string \<times> string \<times> string) option" where
  "binding_target u w b =
     (if va_Attacher b \<noteq> DriverName then None
      else case va_PersistentVolumeName b of
             None \<Rightarrow> None
           | Some volumeName \<Rightarrow>
               (case getPersistentVolume w volumeName of
                  Inl err \<Rightarrow> None
                | Inr pv \<Rightarrow>
                    (case pv_CSI pv of
                       None \<Rightarrow> None
                     | Some csi \<Rightarrow>
                         if Driver csi \<noteq> DriverName then None
                         else (case GetDiskNameFromAzureManagedDiskURI u (VolumeHandle csi) of
                                 Inl err \<Rightarrow> None
                               | Inr diskName \<Rightarrow>
                                   Some (volumeName, VolumeHandle csi,
                                         GetAzVolumeAttachmentName u diskName (va_NodeName b))))))"

definition targets :: "azureutils \<Rightarrow> world \<Rightarrow> VolumeAttachment \<Rightarrow> string \<Rightarrow> bool" where
  "targets u w b name =
     (case binding_target u w b of None \<Rightarrow> False | Some (v, h, n) \<Rightarrow> n = name)"












section \<open>Facts about the store helpers\<close>

lemma UpdateCRIWithRetry_written:
  assumes "store w (Name obj) = Some r"
    and "apiFault w (GetCall (Name obj)) = None"
    and "apiFault w (UpdateCall (Name obj)) = None"
    and "updateFunc r = (r', None)" and "Name r' = Name obj"
  shows "UpdateCRIWithRetry w obj updateFunc = (w\<lparr>store := (store w)(Name obj \<mapsto> r')\<rparr>, None)"
  using assms by (simp add: UpdateCRIWithRetry_def GetAzVolumeAttachment_def client_Update_def)

lemma UpdateCRIWithRetry_frame:
  "provisionerCalls (fst (UpdateCRIWithRetry w obj updateFunc)) = provisionerCalls w
   \<and> goroutines (fst (UpdateCRIWithRetry w obj updateFunc)) = goroutines w
   \<and> stateLock (fst (UpdateCRIWithRetry w obj updateFunc)) = stateLock w"
  by (simp add: UpdateCRIWithRetry_def GetAzVolumeAttachment_def client_Update_def
      split: option.splits sum.splits prod.splits)


section \<open>Facts about the metadata initializer\<close>

lemma initializeMeta_complete:
  "initializeMeta (Some azv) = Some r \<Longrightarrow>
     finalizerExists (Finalizers r) AzVolumeAttachmentFinalizer \<and>
     labelExists (Labels r) NodeNameLabel \<and> labelExists (Labels r) VolumeNameLabel \<and>
     labelExists (Labels r) RoleLabel"
  by (auto simp: initializeMeta_def finalizerExists_def labelExists_def Let_def split: if_splits)

lemma initializeMeta_Some: "\<exists>r. initializeMeta (Some azv) = Some r"
  by (simp add: initializeMeta_def Let_def)

lemma initializeMeta_idem: "initializeMeta (initializeMeta p) = initializeMeta p"
proof (cases p)
  case None
  then show ?thesis by (simp add: initializeMeta_def)
next
  case (Some azv)
  obtain r where r: "initializeMeta (Some azv) = Some r"
    using initializeMeta_Some by blast
  from initializeMeta_complete [OF r] have "initializeMeta (Some r) = Some r"
    by (simp add: initializeMeta_def)
  with r Some show ?thesis by simp
qed



section \<open>Properties of the state machine\<close>

lemma containsString_set: "containsString key items = (key \<in> set items)"
  by (induction items) auto

lemma allowed_iff_table:
  "containsString to (allowedTargetAttachmentStates from) = ((from, to) \<in> set transition_table)"
  by (cases "from"; cases to; simp add: transition_table_def)

text \<open>
  C1. For every pair of states \<open>(from, to)\<close>: when the pair is not in the transition
  table, \<open>updateState\<close> on a resource in state \<open>from\<close> with target \<open>to\<close> returns a
  FailedPrecondition error and the resource is returned as it was, so its state is still
  \<open>from\<close>; when the pair is in the table, no error is returned and the state is \<open>to\<close>. No
  self-transition is in the table, so each of them fails.
\<close>

theorem updateState_transition_table:
  "((State azv, to) \<notin> set transition_table \<longrightarrow>
        (\<exists>msg. updateState (Some azv) to = (Some azv, Some (StatusError FailedPrecondition msg))))
   \<and> ((State azv, to) \<in> set transition_table \<longrightarrow>
        updateState (Some azv) to = (Some (azv\<lparr>State := to\<rparr>), None))
   \<and> (to, to) \<notin> set transition_table"
  by (cases "State azv"; cases to; simp add: updateState_def transition_table_def Let_def)

theorem updateState_transition_table_witness:
  "(State (example_record\<lparr>State := Attached\<rparr>), Attached) \<notin> set transition_table
   \<and> (\<exists>msg. updateState (Some (example_record\<lparr>State := Attached\<rparr>)) Attached =
          (Some (example_record\<lparr>State := Attached\<rparr>), Some (StatusError FailedPrecondition msg)))
   \<and> (State example_record, Attaching) \<in> set transition_table
   \<and> updateState (Some example_record) Attaching = (Some (example_record\<lparr>State := Attaching\<rparr>), None)"
  using updateState_transition_table [of "example_record\<lparr>State := Attached\<rparr>" Attached]
        updateState_transition_table [of example_record Attaching]
  by (simp add: transition_table_def example_record_def)

section \<open>The priority order of the reconciler\<close>

lemma nested_eq_claimed:
  "\<not> (DeletionTimestamp azv \<noteq> None \<and> State azv = Detached) \<Longrightarrow> \<not> isOperationInProcess azv
   \<Longrightarrow> nested_intent azv = claimed_intent azv"
  by (cases "State azv")
     (auto simp: nested_intent_def claimed_intent_def isOperationInProcess_def split: option.splits)

lemma Reconcile_nested:
  assumes "GetAzVolumeAttachment w request = Inr azv" and "\<not> isOperationInProcess azv"
  shows "Reconcile w request = carry_out w azv (nested_intent azv)"
  using assms
  by (auto simp: Reconcile_def nested_intent_def deletionRequested_def split: option.splits)

text \<open>
  C2, as amended. For every fetched record with no cloud operation in flight, \<open>Reconcile\<close>
  does what \<open>nested_intent\<close> says: with a deletion timestamp it triggers detach when the
  state is one of \<open>AttachmentPending\<close>, \<open>Attached\<close>, \<open>AttachmentFailed\<close>,
  \<open>DetachmentFailed\<close>, and is a no-op otherwise; without one and with a nil
  \<open>Status.Detail\<close> it triggers attach when the state is \<open>AttachmentPending\<close> or
  \<open>AttachmentFailed\<close>, and is a no-op otherwise; without one and with a \<open>Status.Detail\<close>
  it triggers promotion when the requested role differs from \<open>Status.Detail.Role\<close>, and
  is a no-op otherwise. This is the priority order of the claim for every record but one
  that is marked for deletion and in state \<open>Detached\<close>.
\<close>

theorem Reconcile_priority_order:
  assumes "GetAzVolumeAttachment w request = Inr azv" and "\<not> isOperationInProcess azv"
  shows "Reconcile w request = carry_out w azv (nested_intent azv)
         \<and> (\<not> (DeletionTimestamp azv \<noteq> None \<and> State azv = Detached) \<longrightarrow>
              Reconcile w request = carry_out w azv (claimed_intent azv))"
  using Reconcile_nested [OF assms] nested_eq_claimed [OF _ assms(2)] by auto

theorem Reconcile_priority_order_witness:
  "GetAzVolumeAttachment example_world (Name example_record) = Inr example_record
   \<and> \<not> isOperationInProcess example_record
   \<and> claimed_intent example_record = AttachIntent
   \<and> Reconcile example_world (Name example_record)
       = after_trigger example_record ''attach'' (triggerAttach example_world example_record)"
proof -
  have g: "GetAzVolumeAttachment example_world (Name example_record) = Inr example_record"
    by (simp add: GetAzVolumeAttachment_def example_world_def example_record_def)
  have n: "\<not> isOperationInProcess example_record"
    by (simp add: isOperationInProcess_def example_record_def)
  have c: "claimed_intent example_record = AttachIntent"
    by (simp add: claimed_intent_def example_record_def)
  have d: "\<not> (DeletionTimestamp example_record \<noteq> None \<and> State example_record = Detached)"
    by (simp add: example_record_def)
  from Reconcile_priority_order [OF g n] d
  have "Reconcile example_world (Name example_record)
          = carry_out example_world example_record (claimed_intent example_record)"
    by blast
  with c g n show ?thesis by simp
qed

text \<open>
  The claim as it was stated fails on \<open>detached_record\<close>: it is marked for deletion, in
  state \<open>Detached\<close>, and its requested role differs from \<open>Status.Detail.Role\<close>. The
  first two conditions of the claim do not match and the third does, so the claim has
  promotion; \<open>Reconcile\<close> returns without a change.
\<close>

theorem Reconcile_priority_order_counterexample:
  "GetAzVolumeAttachment detached_world (Name detached_record) = Inr detached_record
   \<and> \<not> isOperationInProcess detached_record
   \<and> claimed_intent detached_record = PromoteIntent
   \<and> Reconcile detached_world (Name detached_record) = (detached_world, \<lparr>Requeue = False\<rparr>, None)
   \<and> Reconcile detached_world (Name detached_record)
       \<noteq> carry_out detached_world detached_record (claimed_intent detached_record)"
proof -
  have g: "GetAzVolumeAttachment detached_world (Name detached_record) = Inr detached_record"
    by (simp add: GetAzVolumeAttachment_def detached_world_def detached_record_def
        example_world_def example_record_def)
  have n: "\<not> isOperationInProcess detached_record"
    by (simp add: isOperationInProcess_def detached_record_def)
  have c: "claimed_intent detached_record = PromoteIntent"
    by (simp add: claimed_intent_def detached_record_def)
  have "nested_intent detached_record = NoIntent"
    by (simp add: nested_intent_def detached_record_def)
  with Reconcile_nested [OF g n]
  have r: "Reconcile detached_world (Name detached_record)
             = (detached_world, \<lparr>Requeue = False\<rparr>, None)"
    by simp
  have p: "store (fst (promote detached_world detached_record)) ''disk-1-node-1-attachment''
             \<noteq> store detached_world ''disk-1-node-1-attachment''"
    by (simp add: promote_def UpdateCRIWithRetry_def GetAzVolumeAttachment_def client_Update_def
        updateRole_def at_pointer_def Let_def detached_world_def detached_record_def
        example_world_def example_record_def)
  have "fst (carry_out detached_world detached_record (claimed_intent detached_record))
          = fst (promote detached_world detached_record)"
    by (simp add: c after_trigger_def split: prod.splits option.splits)
  with p have "fst (carry_out detached_world detached_record (claimed_intent detached_record))
          \<noteq> detached_world" by auto
  with r have "Reconcile detached_world (Name detached_record)
       \<noteq> carry_out detached_world detached_record (claimed_intent detached_record)"
    by (metis fst_conv)
  with g n c r show ?thesis by simp
qed

section \<open>Promotion\<close>

lemma updateRole_Some:
  "Detail azv = Some d \<Longrightarrow>
   updateRole (Some azv) role =
     Some (azv\<lparr>Labels := (Labels azv)(RoleLabel \<mapsto> string_of_Role role),
               Detail := Some (d\<lparr>Role := role\<rparr>)\<rparr>)"
  by (simp add: updateRole_def Let_def)

text \<open>
  C3, as amended. For every stored record whose \<open>Status.Detail\<close> is not nil, the store
  answering: \<open>promote\<close> stores the record with its role label and its
  \<open>Status.Detail.Role\<close> set to \<open>Primary\<close>, whatever role is requested, leaves
  \<open>Status.State\<close> and the requested role as they were, calls the provisioner not at all
  and launches no goroutine. So the role label and \<open>Status.Detail.Role\<close> equal
  \<open>Spec.RequestedRole\<close> when the requested role is \<open>Primary\<close>.
\<close>

theorem promote_sets_primary_role:
  assumes "store w (Name azv) = Some azv" and "Detail azv = Some d"
    and "apiFault w (GetCall (Name azv)) = None" and "apiFault w (UpdateCall (Name azv)) = None"
  shows "\<exists>r. promote w azv = (w\<lparr>store := (store w)(Name azv \<mapsto> r)\<rparr>, None)
           \<and> Labels r RoleLabel = Some (string_of_Role PrimaryRole)
           \<and> map_option Role (Detail r) = Some PrimaryRole
           \<and> State r = State azv \<and> RequestedRole r = RequestedRole azv
           \<and> (RequestedRole azv = PrimaryRole \<longrightarrow>
                 Labels r RoleLabel = Some (string_of_Role (RequestedRole r))
                 \<and> map_option Role (Detail r) = Some (RequestedRole r))
           \<and> provisionerCalls (fst (promote w azv)) = provisionerCalls w
           \<and> goroutines (fst (promote w azv)) = goroutines w"
proof -
  let ?r = "azv\<lparr>Labels := (Labels azv)(RoleLabel \<mapsto> string_of_Role PrimaryRole),
               Detail := Some (d\<lparr>Role := PrimaryRole\<rparr>)\<rparr>"
  let ?f = "\<lambda>obj. (at_pointer obj (updateRole (Some obj) PrimaryRole), None :: go_error option)"
  have f: "?f azv = (?r, None)"
    using assms(2) by (simp add: updateRole_Some at_pointer_def)
  have p: "promote w azv = (w\<lparr>store := (store w)(Name azv \<mapsto> ?r)\<rparr>, None)"
    unfolding promote_def
    by (rule UpdateCRIWithRetry_written [where r = azv]) (use assms f in simp_all)
  have "provisionerCalls (fst (promote w azv)) = provisionerCalls w
           \<and> goroutines (fst (promote w azv)) = goroutines w"
    by (simp add: p)
  then show ?thesis using p by (intro exI [of _ ?r]) simp
qed

theorem promote_sets_primary_role_witness:
  "store promoted_world (Name promoted_record) = Some promoted_record
   \<and> RequestedRole promoted_record = PrimaryRole
   \<and> (\<exists>r. promote promoted_world promoted_record
             = (promoted_world\<lparr>store := (store promoted_world)(Name promoted_record \<mapsto> r)\<rparr>, None)
          \<and> Labels r RoleLabel = Some (string_of_Role (RequestedRole r))
          \<and> map_option Role (Detail r) = Some (RequestedRole r)
          \<and> State r = Attached)"
proof -
  have s: "store promoted_world (Name promoted_record) = Some promoted_record"
    by (simp add: promoted_world_def promoted_record_def example_world_def example_record_def)
  have d: "Detail promoted_record = Some \<lparr>Role = ReplicaRole, PublishContext = Map.empty\<rparr>"
    by (simp add: promoted_record_def)
  have f: "apiFault promoted_world (GetCall (Name promoted_record)) = None"
    "apiFault promoted_world (UpdateCall (Name promoted_record)) = None"
    by (simp_all add: promoted_world_def example_world_def)
  have q: "RequestedRole promoted_record = PrimaryRole" "State promoted_record = Attached"
    by (simp_all add: promoted_record_def)
  show ?thesis
    using promote_sets_primary_role [OF s d f] s q by auto
qed

text \<open>
  The claim as it was stated fails for a requested role \<open>Replica\<close>: \<open>promote\<close> on
  \<open>demoted_record\<close> stores the role label \<open>Primary\<close> and leaves
  \<open>Status.Detail.Role\<close> at \<open>Primary\<close>, while the requested role is \<open>Replica\<close>.
\<close>

theorem promote_replica_counterexample:
  "store demoted_world (Name demoted_record) = Some demoted_record
   \<and> Detail demoted_record \<noteq> None
   \<and> RequestedRole demoted_record = ReplicaRole
   \<and> Role (the (Detail demoted_record)) = PrimaryRole
   \<and> snd (promote demoted_world demoted_record) = None
   \<and> store (fst (promote demoted_world demoted_record)) (Name demoted_record)
       = Some (demoted_record\<lparr>Labels := [RoleLabel \<mapsto> ''Primary'']\<rparr>)
   \<and> Role (the (Detail (demoted_record\<lparr>Labels := [RoleLabel \<mapsto> ''Primary'']\<rparr>)))
       \<noteq> RequestedRole (demoted_record\<lparr>Labels := [RoleLabel \<mapsto> ''Primary'']\<rparr>)
   \<and> Labels (demoted_record\<lparr>Labels := [RoleLabel \<mapsto> ''Primary'']\<rparr>) RoleLabel
       \<noteq> Some (string_of_Role (RequestedRole (demoted_record\<lparr>Labels := [RoleLabel \<mapsto> ''Primary'']\<rparr>)))"
  by (simp add: promote_def UpdateCRIWithRetry_def GetAzVolumeAttachment_def client_Update_def
      updateRole_def at_pointer_def demoted_world_def demoted_record_def example_world_def
      example_record_def Let_def)

section \<open>Eligibility for detachment\<close>

lemma detachmentRequested_eligible:
  "detachmentRequested w azv = Inr b \<Longrightarrow> b = detach_eligible w azv"
  by (auto simp: detachmentRequested_def detach_eligible_def named_VolumeAttachment_def
      HasAnnotation_def split: if_splits sum.splits option.splits)

lemma detachmentRequested_found:
  "\<not> detach_eligible w azv \<Longrightarrow> named_VolumeAttachment w azv = Inr va
   \<Longrightarrow> detachmentRequested w azv = Inr False"
  by (auto simp: detachmentRequested_def detach_eligible_def named_VolumeAttachment_def
      HasAnnotation_def split: if_splits sum.splits option.splits)

lemma deleteFinalizer_Some:
  "deleteFinalizer (Some azv) =
     Some (azv\<lparr>Finalizers := filter (\<lambda>f. f \<noteq> AzVolumeAttachmentFinalizer) (Finalizers azv)\<rparr>)"
  by (simp add: deleteFinalizer_def)

lemma UpdateCRIWithRetry_store:
  assumes "store w (Name obj) = Some obj"
  shows "store (fst (UpdateCRIWithRetry w obj updateFunc)) (Name obj) = Some obj
         \<or> (\<exists>r. updateFunc obj = (r, None) \<and>
                store (fst (UpdateCRIWithRetry w obj updateFunc)) (Name r) = Some r)"
  using assms
  by (auto simp: UpdateCRIWithRetry_def GetAzVolumeAttachment_def client_Update_def
      split: option.splits sum.splits prod.splits)

lemma triggerDetach_not_eligible:
  assumes "\<not> detach_eligible w azv"
  shows "triggerDetach w azv = (case detachmentRequested w azv of
            Inl err \<Rightarrow> (w, Some err)
          | Inr b \<Rightarrow> UpdateCRIWithRetry w azv (\<lambda>obj. (at_pointer obj (deleteFinalizer (Some obj)), None)))"
  using assms detachmentRequested_eligible [of w azv]
  by (auto simp: triggerDetach_def split: sum.splits bool.splits)

lemma triggerDetach_lookup_error:
  assumes "Annotations azv VolumeAttachmentExistsAnnotation \<noteq> None"
    and "named_VolumeAttachment w azv = Inl e" and "\<not> IsNotFound (Some e)"
  shows "triggerDetach w azv = (w, Some e)"
  using assms
  by (simp add: triggerDetach_def detachmentRequested_def named_VolumeAttachment_def
      HasAnnotation_def)

text \<open>
  C4. For every stored record handed to \<open>triggerDetach\<close> (which \<open>Reconcile\<close> does for
  a record with a deletion timestamp in an eligible state): a detach goroutine is launched
  only if the volume-attachment-exists annotation is absent, or the low-level
  \<open>VolumeAttachment\<close> it names is not found or has a deletion timestamp, or the
  volume-detach-request annotation is present. When none of these hold, no goroutine is
  launched, the provisioner is not called and the state of the stored record stays what it
  was, so it does not become \<open>Detaching\<close>; and, the named \<open>VolumeAttachment\<close> having
  been read and the store answering, the record is stored with the driver's finalizer
  removed.
\<close>

theorem triggerDetach_eligibility:
  assumes "store w (Name azv) = Some azv"
  shows "(goroutines (fst (triggerDetach w azv)) \<noteq> goroutines w \<longrightarrow> detach_eligible w azv)
       \<and> (\<not> detach_eligible w azv \<longrightarrow>
            goroutines (fst (triggerDetach w azv)) = goroutines w
          \<and> provisionerCalls (fst (triggerDetach w azv)) = provisionerCalls w
          \<and> map_option State (store (fst (triggerDetach w azv)) (Name azv)) = Some (State azv))
       \<and> (\<not> detach_eligible w azv \<and> named_VolumeAttachment w azv = Inr va
            \<and> apiFault w (GetCall (Name azv)) = None \<and> apiFault w (UpdateCall (Name azv)) = None \<longrightarrow>
            triggerDetach w azv =
              (w\<lparr>store := (store w)(Name azv \<mapsto>
                    azv\<lparr>Finalizers :=
                          filter (\<lambda>f. f \<noteq> AzVolumeAttachmentFinalizer) (Finalizers azv)\<rparr>)\<rparr>, None)
            \<and> AzVolumeAttachmentFinalizer
                 \<notin> set (Finalizers (the (store (fst (triggerDetach w azv)) (Name azv)))))"
proof -
  let ?f = "\<lambda>obj. (at_pointer obj (deleteFinalizer (Some obj)), None :: go_error option)"
  let ?r = "azv\<lparr>Finalizers := filter (\<lambda>f. f \<noteq> AzVolumeAttachmentFinalizer) (Finalizers azv)\<rparr>"
  have f: "?f azv = (?r, None)" by (simp add: deleteFinalizer_Some at_pointer_def)
  have B: "goroutines (fst (triggerDetach w azv)) = goroutines w
          \<and> provisionerCalls (fst (triggerDetach w azv)) = provisionerCalls w
          \<and> map_option State (store (fst (triggerDetach w azv)) (Name azv)) = Some (State azv)"
    if ne: "\<not> detach_eligible w azv"
  proof (cases "detachmentRequested w azv")
    case (Inl e)
    then show ?thesis using assms by (simp add: triggerDetach_not_eligible [OF ne])
  next
    case (Inr b)
    then have t: "triggerDetach w azv = UpdateCRIWithRetry w azv ?f"
      by (simp add: triggerDetach_not_eligible [OF ne])
    from UpdateCRIWithRetry_store [OF assms, of ?f] f
    have "map_option State (store (fst (UpdateCRIWithRetry w azv ?f)) (Name azv)) = Some (State azv)"
      by auto
    then show ?thesis using UpdateCRIWithRetry_frame [of w azv ?f] by (simp add: t)
  qed
  have A: "goroutines (fst (triggerDetach w azv)) \<noteq> goroutines w \<longrightarrow> detach_eligible w azv"
    using B by blast
  have C: "triggerDetach w azv = (w\<lparr>store := (store w)(Name azv \<mapsto> ?r)\<rparr>, None)
            \<and> AzVolumeAttachmentFinalizer
                 \<notin> set (Finalizers (the (store (fst (triggerDetach w azv)) (Name azv))))"
    if ne: "\<not> detach_eligible w azv" and va: "named_VolumeAttachment w azv = Inr va"
      and g: "apiFault w (GetCall (Name azv)) = None" and u: "apiFault w (UpdateCall (Name azv)) = None"
  proof -
    have "triggerDetach w azv = UpdateCRIWithRetry w azv ?f"
      using detachmentRequested_found [OF ne va] by (simp add: triggerDetach_not_eligible [OF ne])
    also have "\<dots> = (w\<lparr>store := (store w)(Name azv \<mapsto> ?r)\<rparr>, None)"
      by (rule UpdateCRIWithRetry_written [where r = azv]) (use assms g u f in simp_all)
    finally show ?thesis by simp
  qed
  show ?thesis using A B C by blast
qed

theorem triggerDetach_eligibility_witness:
  "store bound_world (Name deleted_record) = Some deleted_record
   \<and> \<not> detach_eligible bound_world deleted_record
   \<and> named_VolumeAttachment bound_world deleted_record = Inr example_volumeAttachment
   \<and> triggerDetach bound_world deleted_record
       = (bound_world\<lparr>store := (store bound_world)(Name deleted_record \<mapsto>
                         deleted_record\<lparr>Finalizers := []\<rparr>)\<rparr>, None)
   \<and> map_option State (store (fst (triggerDetach bound_world deleted_record))
        (Name deleted_record)) = Some Attached
   \<and> store unbound_world (Name deleted_record) = Some deleted_record
   \<and> goroutines (fst (triggerDetach unbound_world deleted_record)) \<noteq> goroutines unbound_world
   \<and> detach_eligible unbound_world deleted_record"
proof -
  have s: "store bound_world (Name deleted_record) = Some deleted_record"
    by (simp add: bound_world_def deleted_record_def example_world_def example_record_def)
  have v: "named_VolumeAttachment bound_world deleted_record = Inr example_volumeAttachment"
    by (simp add: named_VolumeAttachment_def bound_world_def deleted_record_def)
  have ne: "\<not> detach_eligible bound_world deleted_record"
    by (simp add: detach_eligible_def v)
       (simp add: deleted_record_def example_record_def example_volumeAttachment_def
          VolumeAttachmentExistsAnnotation_def VolumeDetachRequestAnnotation_def)
  have fl: "apiFault bound_world (GetCall (Name deleted_record)) = None"
    "apiFault bound_world (UpdateCall (Name deleted_record)) = None"
    by (simp_all add: bound_world_def example_world_def)
  have fin: "filter (\<lambda>f. f \<noteq> AzVolumeAttachmentFinalizer) (Finalizers deleted_record) = []"
    by (simp add: deleted_record_def)
  have st: "State deleted_record = Attached" by (simp add: deleted_record_def)
  have s2: "store unbound_world (Name deleted_record) = Some deleted_record"
    by (simp add: unbound_world_def deleted_record_def example_world_def example_record_def)
  have g2: "goroutines (fst (triggerDetach unbound_world deleted_record)) \<noteq> goroutines unbound_world"
    by (simp add: triggerDetach_def detachmentRequested_def HasAnnotation_def LoadOrStore_def
          UpdateCRIWithRetry_def GetAzVolumeAttachment_def client_Update_def updateState_def
          at_pointer_def Delete_def Let_def
          unbound_world_def deleted_record_def example_world_def example_record_def)
  show ?thesis
    using triggerDetach_eligibility [OF s, of example_volumeAttachment]
      triggerDetach_eligibility [OF s2] s v ne fl fin st s2 g2
    by simp
qed

section \<open>Recovery of records from the bindings of the cluster\<close>

lemma binding_target_store [simp]:
  "binding_target u (w\<lparr>store := s\<rparr>) b = binding_target u w b"
  by (simp add: binding_target_def split: option.splits sum.splits)

lemma targets_store [simp]: "targets u (w\<lparr>store := s\<rparr>) b name = targets u w b name"
  by (simp add: targets_def)

lemma new_AzVolumeAttachment_Name [simp]:
  "Name (new_AzVolumeAttachment u b v h n) = n"
  by (simp add: new_AzVolumeAttachment_def Let_def)














section \<open>Recording a provisioner error\<close>




section \<open>Properties of the metadata initializer\<close>

text \<open>
  C7, as amended. Applying \<open>initializeMeta\<close> twice gives the record that applying it once
  gives. After one application the record carries the driver's finalizer and the node-name,
  volume-name and role labels, and a second application returns it unchanged. A record that
  already carried all four is returned as it is, whatever its role label says; when one of
  them was missing, the role label is the requested role of the record.
\<close>

theorem initializeMeta_idempotent:
  "initializeMeta (initializeMeta (Some azv)) = initializeMeta (Some azv)
   \<and> (\<exists>r. initializeMeta (Some azv) = Some r \<and> metadata_present r
          \<and> initializeMeta (Some r) = Some r
          \<and> (metadata_present azv \<longrightarrow> r = azv)
          \<and> (\<not> metadata_present azv \<longrightarrow>
                Labels r RoleLabel = Some (string_of_Role (RequestedRole r))))"
proof -
  obtain r where r: "initializeMeta (Some azv) = Some r"
    using initializeMeta_Some by blast
  have 1: "metadata_present r"
    using initializeMeta_complete [OF r] by (simp add: metadata_present_def)
  have 2: "initializeMeta (Some r) = Some r"
    using initializeMeta_idem [of "Some azv"] r by simp
  have 3: "metadata_present azv \<longrightarrow> r = azv"
    using r by (auto simp: initializeMeta_def metadata_present_def)
  have 4: "\<not> metadata_present azv \<longrightarrow>
             Labels r RoleLabel = Some (string_of_Role (RequestedRole r))"
    using r by (auto simp: initializeMeta_def metadata_present_def Let_def split: if_splits)
  show ?thesis
    using r 1 2 3 4 initializeMeta_idem [of "Some azv"] by simp
qed

theorem initializeMeta_idempotent_witness:
  "\<not> metadata_present example_record
   \<and> (\<exists>r. initializeMeta (Some example_record) = Some r
          \<and> Labels r RoleLabel = Some (string_of_Role (RequestedRole r)))
   \<and> metadata_present stale_role_record
   \<and> initializeMeta (Some stale_role_record) = Some stale_role_record"
proof -
  have a: "\<not> metadata_present example_record"
    by (simp add: metadata_present_def example_record_def finalizerExists_def)
  have b: "metadata_present stale_role_record"
    by (simp add: metadata_present_def stale_role_record_def example_record_def
        finalizerExists_def labelExists_def)
  show ?thesis
    using a b initializeMeta_idempotent [of example_record]
      initializeMeta_idempotent [of stale_role_record]
    by auto
qed

text \<open>
  The claim as it was stated fails on \<open>stale_role_record\<close>: one application leaves the
  role label \<open>Replica\<close> while the requested role is \<open>Primary\<close>.
\<close>

theorem initializeMeta_role_label_counterexample:
  "initializeMeta (Some stale_role_record) = Some stale_role_record
   \<and> Labels stale_role_record RoleLabel
       \<noteq> Some (string_of_Role (RequestedRole stale_role_record))"
  by (simp add: initializeMeta_def stale_role_record_def example_record_def finalizerExists_def
      labelExists_def)

section \<open>The command line of \<open>azva\<close>\<close>

lemma numFlag_filters:
  "flag_namespace fl \<noteq> Some [] \<Longrightarrow> numFlag fl = int (filters_given fl)"
  by (cases "flag_namespace fl")
     (auto simp: numFlag_def NFlag_def filters_given_def GetString_def)





section \<open>The per-record operation lock\<close>






section \<open>The listing functions on a record without detail\<close>

lemma claimed_in_Some:
  "claimed_in m k \<Longrightarrow> \<exists>ns. m k = Some ns \<and> ns \<noteq> []"
  by (simp add: claimed_in_def split: option.splits)

lemma resource_row_nil: "Detail azv = None \<Longrightarrow> resource_row t rt azv = Inl NilPointerDereference"
  by (simp add: resource_row_def)

lemma resource_row_all_nil:
  "Detail azv = None \<Longrightarrow> resource_row_all t p n z azv = Inl NilPointerDereference"
  by (simp add: resource_row_all_def)

lemma rows_of_pods_nil:
  "Detail azv = None \<Longrightarrow> pNames \<noteq> [] \<Longrightarrow>
   rows_of_pods t azv pNames result = Inl NilPointerDereference"
  by (cases pNames) (simp_all add: resource_row_nil)

lemma rows_of_pods_all_nil:
  "Detail azv = None \<Longrightarrow> pNames \<noteq> [] \<Longrightarrow>
   rows_of_pods_all t n z azv pNames result = Inl NilPointerDereference"
  by (cases pNames) (simp_all add: resource_row_all_nil)

lemma rows_of_pods_panic:
  "rows_of_pods t azv pNames result = Inl p \<Longrightarrow> p = NilPointerDereference"
  by (induction pNames arbitrary: result)
     (auto simp: resource_row_def split: sum.splits option.splits)

lemma node_loop_nil:
  "azv \<in> set items \<Longrightarrow> NodeName azv = nodeName \<Longrightarrow> Detail azv = None \<Longrightarrow>
   node_loop t nodeName items result = Inl NilPointerDereference"
proof (induction items arbitrary: result)
  case Nil
  then show ?case by simp
next
  case (Cons item items)
  show ?case
  proof (cases "NodeName item = nodeName")
    case False
    with Cons show ?thesis by auto
  next
    case True
    show ?thesis
    proof (cases "Detail item")
      case None
      with True show ?thesis by (simp add: resource_row_nil)
    next
      case (Some d)
      with Cons.prems have "azv \<in> set items" by auto
      from Cons.IH [OF this Cons.prems(2,3)] True Some show ?thesis
        by (simp add: resource_row_def)
    qed
  qed
qed

lemma zone_loop_nil:
  "azv \<in> set items \<Longrightarrow> nodeSet (NodeName azv) \<noteq> None \<Longrightarrow> Detail azv = None \<Longrightarrow>
   zone_loop t nodeSet items result = Inl NilPointerDereference"
proof (induction items arbitrary: result)
  case Nil
  then show ?case by simp
next
  case (Cons item items)
  show ?case
  proof (cases "nodeSet (NodeName item)")
    case None
    with Cons show ?thesis by auto
  next
    case (Some zName)
    show ?thesis
    proof (cases "Detail item")
      case None
      with Some show ?thesis by (simp add: resource_row_nil)
    next
      case (Some d)
      with Cons.prems have "azv \<in> set items" by auto
      from Cons.IH [OF this Cons.prems(2,3)] Some \<open>nodeSet (NodeName item) = Some zName\<close>
      show ?thesis by (simp add: resource_row_def)
    qed
  qed
qed

lemma pod_loop_nil:
  "azv \<in> set items \<Longrightarrow> claimed_in pvcClaimNameSet (claim_of azv) \<Longrightarrow>
   Detail azv = None \<Longrightarrow>
   pod_loop t pvcClaimNameSet items result = Inl NilPointerDereference"
proof (induction items arbitrary: result)
  case Nil
  then show ?case by simp
next
  case (Cons item items)
  let ?inner = "case pvcClaimNameSet (map_index (VolumeContext item) PvcNameKey) of
              None \<Rightarrow> Inr result
            | Some pNames \<Rightarrow> rows_of_pods t item pNames result"
  show ?case
  proof (cases ?inner)
    case (Inl p)
    then have "p = NilPointerDereference"
      by (auto split: option.splits dest: rows_of_pods_panic)
    with Inl show ?thesis by simp
  next
    case (Inr result1)
    have "azv \<noteq> item"
    proof
      assume "azv = item"
      with Cons.prems claimed_in_Some [OF Cons.prems(2)]
      have "?inner = Inl NilPointerDereference"
        by (auto simp: claim_of_def rows_of_pods_nil)
      with Inr show False by simp
    qed
    with Cons.prems have "azv \<in> set items" by auto
    from Cons.IH [OF this Cons.prems(2,3)] Inr show ?thesis by simp
  qed
qed

lemma all_loop_nil:
  "azv \<in> set items \<Longrightarrow> claimed_in pvcClaimNameSet (claim_of azv) \<Longrightarrow>
   Detail azv = None \<Longrightarrow>
   isl (snd (all_loop c pvcClaimNameSet items result))"
proof (induction items arbitrary: result)
  case Nil
  then show ?case by simp
next
  case (Cons item items)
  show ?case
  proof (cases "getNode c (NodeName item)")
    case (Inl err)
    then show ?thesis by simp
  next
    case (Inr node)
    let ?inner = "case pvcClaimNameSet (map_index (VolumeContext item) PvcNameKey) of
                   None \<Rightarrow> Inr result
                 | Some pNames \<Rightarrow>
                     rows_of_pods_all (now c) (NodeName item)
                       (map_index (node_Labels node) WellKnownTopologyKey)
                       item pNames result"
    show ?thesis
    proof (cases ?inner)
      case (Inl p)
      with Inr show ?thesis by simp
    next
      case inner: (Inr result1)
      have "azv \<noteq> item"
      proof
        assume "azv = item"
        with Cons.prems claimed_in_Some [OF Cons.prems(2)]
        have "?inner = Inl NilPointerDereference"
          by (auto simp: claim_of_def rows_of_pods_all_nil)
        with inner show False by simp
      qed
      with Cons.prems have "azv \<in> set items" by auto
      from Cons.IH [OF this Cons.prems(2,3), of result1] Inr inner show ?thesis
        by (cases "all_loop c pvcClaimNameSet items result1") simp
    qed
  qed
qed

lemma add_claims_keeps: "claimed_in m k \<Longrightarrow> claimed_in (add_claims p vs m) k"
proof (induction vs arbitrary: m)
  case Nil
  then show ?case by simp
next
  case (Cons v vs)
  show ?case
  proof (cases v)
    case None
    with Cons show ?thesis by simp
  next
    case (Some c)
    let ?m = "m(c \<mapsto> (case m c of None \<Rightarrow> [] | Some names \<Rightarrow> names) @ [p])"
    from Cons.prems have "claimed_in ?m k" by (simp add: claimed_in_def)
    from Cons.IH [OF this] have "claimed_in (add_claims p vs ?m) k" .
    then show ?thesis unfolding Some by (simp only: add_claims.simps option.case)
  qed
qed

lemma add_claims_claimed: "Some k \<in> set vs \<Longrightarrow> claimed_in (add_claims p vs m) k"
proof (induction vs arbitrary: m)
  case Nil
  then show ?case by simp
next
  case (Cons v vs)
  show ?case
  proof (cases "v = Some k")
    case True
    let ?m = "m(k \<mapsto> (case m k of None \<Rightarrow> [] | Some names \<Rightarrow> names) @ [p])"
    have "claimed_in ?m k" by (simp add: claimed_in_def)
    from add_claims_keeps [OF this] have "claimed_in (add_claims p vs ?m) k" .
    then show ?thesis unfolding True by (simp only: add_claims.simps option.case)
  next
    case False
    with Cons show ?thesis by (cases v) auto
  qed
qed

lemma add_pods_keeps: "claimed_in m k \<Longrightarrow> claimed_in (add_pods pods m) k"
proof (induction pods arbitrary: m)
  case Nil
  then show ?case by simp
next
  case (Cons pod pods)
  from Cons.IH [OF add_claims_keeps [OF Cons.prems]] show ?case by simp
qed

lemma add_pods_claimed:
  "pod \<in> set pods \<Longrightarrow> Some k \<in> set (pod_Volumes pod) \<Longrightarrow> claimed_in (add_pods pods m) k"
proof (induction pods arbitrary: m)
  case Nil
  then show ?case by simp
next
  case (Cons q pods)
  show ?case
  proof (cases "Some k \<in> set (pod_Volumes q)")
    case True
    from add_pods_keeps [OF add_claims_claimed [OF True]] show ?thesis by simp
  next
    case False
    with Cons.prems have "pod \<in> set pods" by auto
    from Cons.IH [OF this Cons.prems(2)] show ?thesis by simp
  qed
qed

lemma add_nodes_keeps: "m k \<noteq> None \<Longrightarrow> add_nodes z nodes m k \<noteq> None"
  by (induction nodes arbitrary: m) auto

lemma add_nodes_in_zone:
  "node \<in> set nodes \<Longrightarrow> zone_of node = z \<Longrightarrow> add_nodes z nodes m (node_Name node) \<noteq> None"
proof (induction nodes arbitrary: m)
  case Nil
  then show ?case by simp
next
  case (Cons n nodes)
  show ?case
  proof (cases "n = node")
    case True
    with Cons.prems show ?thesis
      using add_nodes_keeps [of "m(node_Name node \<mapsto> z)" "node_Name node" z nodes]
      by (simp add: zone_of_def)
  next
    case False
    with Cons show ?thesis by auto
  qed
qed

text \<open>
  C10. The listing functions read \<open>Status.Detail.Role\<close> of every matching record. For
  every record in the list of records with a nil \<open>Status.Detail\<close>: if its node is the
  node asked for, the listing by node ends in a nil pointer dereference; if its claim is
  among the volumes of the pod asked for, so does the listing by pod; if its node is a node
  of the zone asked for, so does the listing by zone; and if its claim is among the volumes
  of a pod of the namespace, the unfiltered listing ends in a panic (this one, or that of a
  failed read of a node before it). None of them returns a result.
\<close>

theorem listing_panics_on_nil_Detail:
  assumes "listAzVolumeAttachments c = Inr items" and "azv \<in> set items" and "Detail azv = None"
  shows "(NodeName azv = nodeName \<longrightarrow>
            snd (GetAzVolumeAttachementsByNode c nodeName) = Inl NilPointerDereference)
       \<and> (getPod c (default_namespace namespace) podName = Inr pod
            \<and> Some (claim_of azv) \<in> set (pod_Volumes pod) \<longrightarrow>
            snd (GetAzVolumeAttachementsByPod c podName namespace) = Inl NilPointerDereference)
       \<and> (listNodes c = Inr nodes
            \<and> (\<exists>node \<in> set nodes. node_Name node = NodeName azv \<and> zone_of node = zoneName) \<longrightarrow>
            snd (GetAzVolumeAttachementsByZone c zoneName) = Inl NilPointerDereference)
       \<and> (listPods c (default_namespace namespace) = Inr pods
            \<and> (\<exists>pod \<in> set pods. Some (claim_of azv) \<in> set (pod_Volumes pod)) \<longrightarrow>
            isl (snd (GetAllAzVolumeAttachements c namespace)))"
proof -
  have 1: "snd (GetAzVolumeAttachementsByNode c nodeName) = Inl NilPointerDereference"
    if "NodeName azv = nodeName"
    using node_loop_nil [OF assms(2) that assms(3), of "now c" "[]"] assms(1)
    by (simp add: GetAzVolumeAttachementsByNode_def)
  have 2: "snd (GetAzVolumeAttachementsByPod c podName namespace) = Inl NilPointerDereference"
    if p: "getPod c (default_namespace namespace) podName = Inr pod"
      and k: "Some (claim_of azv) \<in> set (pod_Volumes pod)"
  proof -
    note ns = add_claims_claimed [OF k, of "pod_Name pod" Map.empty]
    from pod_loop_nil [where pvcClaimNameSet = "add_claims (pod_Name pod) (pod_Volumes pod) Map.empty",
        OF assms(2) ns assms(3), of "now c" "[]"] p assms(1) show ?thesis
      by (simp add: GetAzVolumeAttachementsByPod_def default_namespace_def Let_def)
  qed
  have 3: "snd (GetAzVolumeAttachementsByZone c zoneName) = Inl NilPointerDereference"
    if n: "listNodes c = Inr nodes"
      and z: "\<exists>node \<in> set nodes. node_Name node = NodeName azv \<and> zone_of node = zoneName"
  proof -
    from z obtain node where "node \<in> set nodes" "node_Name node = NodeName azv"
      "zone_of node = zoneName" by blast
    with add_nodes_in_zone [of node nodes zoneName Map.empty]
    have "add_nodes zoneName nodes Map.empty (NodeName azv) \<noteq> None" by simp
    from zone_loop_nil [where nodeSet = "add_nodes zoneName nodes Map.empty",
        OF assms(2) this assms(3), of "now c" "[]"] n assms(1) show ?thesis
      by (simp add: GetAzVolumeAttachementsByZone_def)
  qed
  have 4: "isl (snd (GetAllAzVolumeAttachements c namespace))"
    if p: "listPods c (default_namespace namespace) = Inr pods"
      and k: "\<exists>pod \<in> set pods. Some (claim_of azv) \<in> set (pod_Volumes pod)"
  proof -
    from k obtain pod where "pod \<in> set pods" "Some (claim_of azv) \<in> set (pod_Volumes pod)"
      by blast
    note ns = add_pods_claimed [OF this, of Map.empty]
    from all_loop_nil [where pvcClaimNameSet = "add_pods pods Map.empty",
        OF assms(2) ns assms(3), of c "[]"] p assms(1) show ?thesis
      by (cases "all_loop c (add_pods pods Map.empty) items []")
         (auto simp: GetAllAzVolumeAttachements_def default_namespace_def Let_def
          split: sum.splits)
  qed
  from 1 2 3 4 show ?thesis by blast
qed

theorem listing_panics_on_nil_Detail_witness:
  "listAzVolumeAttachments example_cluster = Inr [pending_claim_record]
   \<and> Detail pending_claim_record = None
   \<and> NodeName pending_claim_record = ''node-1''
   \<and> claim_of pending_claim_record = ''pvc-1''
   \<and> snd (GetAzVolumeAttachementsByNode example_cluster ''node-1'') = Inl NilPointerDereference
   \<and> snd (GetAzVolumeAttachementsByPod example_cluster ''pod-1'' []) = Inl NilPointerDereference
   \<and> snd (GetAzVolumeAttachementsByZone example_cluster ''zone-1'') = Inl NilPointerDereference
   \<and> isl (snd (GetAllAzVolumeAttachements example_cluster []))"
proof -
  let ?pod = "\<lparr>pod_Name = ''pod-1'', pod_Volumes = [None, Some ''pvc-1'']\<rparr>"
  let ?node = "\<lparr>node_Name = ''node-1'', node_Labels = [WellKnownTopologyKey \<mapsto> ''zone-1'']\<rparr>"
  have l: "listAzVolumeAttachments example_cluster = Inr [pending_claim_record]"
    by (simp add: example_cluster_def)
  have m: "pending_claim_record \<in> set [pending_claim_record]" by simp
  have d: "Detail pending_claim_record = None"
    by (simp add: pending_claim_record_def example_record_def)
  have n: "NodeName pending_claim_record = ''node-1''"
    by (simp add: pending_claim_record_def example_record_def)
  have k: "claim_of pending_claim_record = ''pvc-1''"
    by (simp add: claim_of_def map_index_def pending_claim_record_def)
  have p: "getPod example_cluster (default_namespace []) ''pod-1'' = Inr ?pod"
    by (simp add: example_cluster_def)
  have ps: "listPods example_cluster (default_namespace []) = Inr [?pod]"
    by (simp add: example_cluster_def)
  have ns: "listNodes example_cluster = Inr [?node]"
    by (simp add: example_cluster_def)
  have z: "zone_of ?node = ''zone-1''" by (simp add: zone_of_def map_index_def)
  note t = listing_panics_on_nil_Detail [OF l m d, where nodeName = "''node-1''"
      and namespace = "[]" and podName = "''pod-1''" and pod = ?pod and nodes = "[?node]"
      and zoneName = "''zone-1''" and pods = "[?pod]"]
  show ?thesis using t l d n k p ps ns z by simp
qed

end
